theory Spec2Isabelle
  imports Complex_Main
begin

section \<open>Profile extraction (silx/gui/plot/PlotTools.py)\<close>

subsection \<open>Python and numpy values\<close>

text \<open>
  The exceptions the modelled code can raise. \<open>AssertionError\<close> is what a failed
  \<^verbatim>\<open>assert\<close> raises (the specification calls the failed range assertions
  InvalidRange), \<open>ZeroDivisionError\<close> a float division by zero, \<open>ValueError\<close> numpy's
  shape and empty-sequence errors, \<open>AttributeError\<close> an attribute looked up on an object that
  has none of that name.
\<close>

datatype error = AssertionError | ZeroDivisionError | ValueError | AttributeError

text \<open>
  A float32 sample of a profile. Finite values are modelled by exact reals (rounding is not
  modelled); \<open>NaN\<close> is what numpy's mean of an empty slice returns.
\<close>

datatype sample = Fin real | NaN

text \<open>Python's \<^verbatim>\<open>int(x)\<close> on a float: truncation towards zero.\<close>

definition py_int :: "real \<Rightarrow> int" where
  "py_int x = (if 0 \<le> x then \<lfloor>x\<rfloor> else \<lceil>x\<rceil>)"

text \<open>Indexing a 2-tuple, \<^verbatim>\<open>t[i]\<close> with \<open>i\<close> in \<open>{0, 1}\<close>.\<close>

definition sel :: "'a \<times> 'a \<Rightarrow> nat \<Rightarrow> 'a" where
  "sel t i = (if i = 0 then fst t else snd t)"

text \<open>
  A 2D numpy array: its shape \<open>(nrows, ncols)\<close> and its element at \<open>(row, column)\<close>.
\<close>

record ndarray =
  nrows :: nat
  ncols :: nat
  px :: "nat \<Rightarrow> nat \<Rightarrow> real"

definition numpy_transpose :: "ndarray \<Rightarrow> ndarray" where
  "numpy_transpose a = \<lparr>nrows = ncols a, ncols = nrows a, px = (\<lambda>i j. px a j i)\<rparr>"

text \<open>
  A bound of a Python slice on a sequence of length \<open>n\<close>: a negative bound counts from the
  end, and every bound is clipped to \<open>[0, n]\<close>.
\<close>

definition slice_bound :: "int \<Rightarrow> nat \<Rightarrow> nat" where
  "slice_bound i n = (if i < 0 then nat (max 0 (i + int n)) else min (nat i) n)"

text \<open>\<^verbatim>\<open>a[r0:r1, c0:c1]\<close>; an empty range gives an extent of 0.\<close>

definition nd_slice :: "ndarray \<Rightarrow> int \<Rightarrow> int \<Rightarrow> int \<Rightarrow> int \<Rightarrow> ndarray" where
  "nd_slice a r0 r1 c0 c1 =
     (let rlo = slice_bound r0 (nrows a); rhi = slice_bound r1 (nrows a);
          clo = slice_bound c0 (ncols a); chi = slice_bound c1 (ncols a)
      in \<lparr>nrows = rhi - rlo, ncols = chi - clo,
           px = (\<lambda>i j. px a (rlo + i) (clo + j))\<rparr>)"

text \<open>\<^verbatim>\<open>a[r0:r1, :]\<close>.\<close>

definition nd_rows :: "ndarray \<Rightarrow> int \<Rightarrow> int \<Rightarrow> ndarray" where
  "nd_rows a r0 r1 =
     (let rlo = slice_bound r0 (nrows a); rhi = slice_bound r1 (nrows a)
      in \<lparr>nrows = rhi - rlo, ncols = ncols a, px = (\<lambda>i j. px a (rlo + i) j)\<rparr>)"

text \<open>The mean of a sequence of values; of no value at all it is \<open>NaN\<close>.\<close>

definition mean_list :: "real list \<Rightarrow> sample" where
  "mean_list xs = (if xs = [] then NaN else Fin (sum_list xs / real (length xs)))"

text \<open>
  \<^verbatim>\<open>a.mean(axis=axis, dtype=numpy.float32)\<close>: with \<open>axis = 0\<close> one mean per column, taken
  over the rows; with \<open>axis = 1\<close> one mean per row, taken over the columns.
\<close>

definition nd_mean :: "ndarray \<Rightarrow> nat \<Rightarrow> sample list" where
  "nd_mean a axis =
     (if axis = 0
      then map (\<lambda>c. mean_list (map (\<lambda>r. px a r c) [0..<nrows a])) [0..<ncols a]
      else map (\<lambda>r. mean_list (map (\<lambda>c. px a r c) [0..<ncols a])) [0..<nrows a])"

text \<open>
  \<^verbatim>\<open>a[lo:hi] = v\<close> on a 1D array: the slice must have the length of \<open>v\<close>, unless \<open>v\<close> has
  one element, which is then repeated over the slice; any other length is a ValueError.
\<close>

definition slice_assign :: "'a list \<Rightarrow> int \<Rightarrow> int \<Rightarrow> 'a list \<Rightarrow> error + 'a list" where
  "slice_assign a lo hi v =
     (let l = slice_bound lo (length a); h = slice_bound hi (length a); m = h - l
      in if length v = m then Inr (take l a @ v @ drop (l + m) a)
         else if length v = 1 then Inr (take l a @ replicate m (hd v) @ drop (l + m) a)
         else Inl ValueError)"

subsection \<open>ProfileToolBar._alignedFullProfile\<close>

text \<open>
  Lines 412 to 417: the width clipped to the image, and the band \<open>[start, end[\<close> of rows.
  \<open>roi_start\<close> is the start of line 415, before it is clamped on line 416.
\<close>

definition roi_start :: "int \<Rightarrow> int \<Rightarrow> int \<Rightarrow> int" where
  "roi_start height imgPos roiWidth =
     py_int (real_of_int imgPos + 0.5 - real_of_int (min height roiWidth) / 2)"

definition roi_band :: "int \<Rightarrow> int \<Rightarrow> int \<Rightarrow> int \<times> int \<times> int" where
  "roi_band height imgPos roiWidth =
     (let roiWidth = min height roiWidth;
          start = py_int (real_of_int imgPos + 0.5 - real_of_int roiWidth / 2);
          start = min (max 0 start) (height - roiWidth);
          end' = start + roiWidth
      in (roiWidth, start, end'))"

text \<open>The test of line 419: the band meets the rows \<open>[0, height[\<close> of the image.\<close>

definition band_intersects :: "int \<Rightarrow> int \<Rightarrow> int \<Rightarrow> bool" where
  "band_intersects height start end' = (start < height \<and> end' > 0)"

text \<open>
  Line 404: the position of the profile line in image coordinates, on the axis orthogonal to
  the profile. The caller has checked that the scale is not 0.
\<close>

definition imgPos_of :: "real \<times> real \<Rightarrow> real \<times> real \<Rightarrow> real \<Rightarrow> nat \<Rightarrow> int" where
  "imgPos_of origin scale position axis =
     py_int ((position - sel origin (1 - axis)) / sel scale (1 - axis))"

text \<open>The image the profile is taken on: transposed for a vertical profile (line 406).\<close>

definition oriented :: "ndarray \<Rightarrow> nat \<Rightarrow> ndarray" where
  "oriented img axis = (if axis = 1 then numpy_transpose img else img)"

text \<open>
  The whole function. It returns the profile and the corners of the band in plot
  coordinates, \<open>area\<close>, as two arrays of four values.
\<close>

definition alignedFullProfile ::
  "ndarray \<Rightarrow> real \<times> real \<Rightarrow> real \<times> real \<Rightarrow> real \<Rightarrow> int \<Rightarrow> nat
     \<Rightarrow> error + (sample list \<times> (real list \<times> real list))" where
  "alignedFullProfile img origin scale position roiWidth axis =
     (if \<not> (axis = 0 \<or> axis = 1) then Inl AssertionError
      else if sel scale (1 - axis) = 0 then Inl ZeroDivisionError
      else
        let imgPos = imgPos_of origin scale position axis;
            img = oriented img axis;
            height = int (nrows img);
            width = ncols img;
            (roiWidth, start, end') = roi_band height imgPos roiWidth;
            profile =
              (if band_intersects height start end'
               then nd_mean (nd_rows img (max 0 start) (min end' height)) 0
               else replicate width (Fin 0));
            profileBounds =
              map (\<lambda>v. v * fst scale + fst origin) [0, real width, real width, 0];
            roiBounds =
              map (\<lambda>v. real_of_int v * snd scale + snd origin) [start, start, end', end'];
            area = (if axis = 0 then (profileBounds, roiBounds)
                    else (roiBounds, profileBounds))
        in Inr (profile, area))"

text \<open>
  The mean of the \<open>k\<close> rows from row \<open>s\<close> on, column by column: what the profile of a band
  inside the image is.
\<close>

definition band_mean :: "ndarray \<Rightarrow> nat \<Rightarrow> nat \<Rightarrow> sample list" where
  "band_mean a s k =
     map (\<lambda>c. Fin (sum_list (map (\<lambda>r. px a r c) [s..<s + k]) / real k)) [0..<ncols a]"

text \<open>Example images: \<open>[[1, 2], [3, 4]]\<close> and the column \<open>[[0], [1], [2], [3], [4]]\<close>.\<close>

definition img2x2 :: ndarray where
  "img2x2 = \<lparr>nrows = 2, ncols = 2, px = (\<lambda>r c. real (2 * r + c + 1))\<rparr>"

definition img5x1 :: ndarray where
  "img5x1 = \<lparr>nrows = 5, ncols = 1, px = (\<lambda>r c. real r)\<rparr>"

text \<open>
  The band as the specification words it (C3), to compare with \<open>roi_band\<close>: the width
  clamped to \<open>[1, extent]\<close>, the start \<open>round (idx + 0.5 - width / 2)\<close> clamped to
  \<open>[0, extent - width]\<close>, and the end \<open>start + width\<close>, where \<open>idx\<close> is the position of the
  line in image coordinates, not truncated.
\<close>

definition spec_band :: "int \<Rightarrow> real \<Rightarrow> int \<Rightarrow> int \<times> int \<times> int" where
  "spec_band extent idx width =
     (let width = min extent (max 1 width);
          start = round (idx + 0.5 - real_of_int width / 2);
          start = min (max 0 start) (extent - width)
      in (width, start, start + width))"

subsection \<open>ProfileToolBar._alignedPartialProfile\<close>

text \<open>
  The three assertions come first; then the intersection of the ranges with the image, its
  mean along \<open>axis\<close>, and the profile of the length of the requested range, filled with
  zeros, into which the mean is copied.
\<close>

definition alignedPartialProfile ::
  "ndarray \<Rightarrow> int \<times> int \<Rightarrow> int \<times> int \<Rightarrow> nat \<Rightarrow> error + sample list" where
  "alignedPartialProfile img rowRange colRange axis =
     (if \<not> (axis = 0 \<or> axis = 1) then Inl AssertionError
      else if \<not> fst rowRange < snd rowRange then Inl AssertionError
      else if \<not> fst colRange < snd colRange then Inl AssertionError
      else
        let height = int (nrows img);
            width = int (ncols img);
            profileRange = (if axis = 0 then colRange else rowRange);
            profileLength = nat \<bar>snd profileRange - fst profileRange\<bar>;
            rowStart = min (max 0 (fst rowRange)) height;
            rowEnd = min (max 0 (snd rowRange)) height;
            colStart = min (max 0 (fst colRange)) width;
            colEnd = min (max 0 (snd colRange)) width;
            imgProfile = nd_mean (nd_slice img rowStart rowEnd colStart colEnd) axis;
            profile = replicate profileLength (Fin 0);
            offset = - min 0 (fst profileRange)
        in slice_assign profile offset (offset + int (length imgProfile)) imgProfile)"

text \<open>
  The mean of the intersection of the ranges with the image, \<open>imgProfile\<close> in the source,
  on its own.
\<close>

definition imgProfile_of :: "ndarray \<Rightarrow> int \<times> int \<Rightarrow> int \<times> int \<Rightarrow> nat \<Rightarrow> sample list" where
  "imgProfile_of img rowRange colRange axis =
     (let height = int (nrows img);
          width = int (ncols img);
          rowStart = min (max 0 (fst rowRange)) height;
          rowEnd = min (max 0 (snd rowRange)) height;
          colStart = min (max 0 (fst colRange)) width;
          colEnd = min (max 0 (snd colRange)) width
      in nd_mean (nd_slice img rowStart rowEnd colStart colEnd) axis)"

text \<open>
  The mean of line \<open>x\<close> of the image (a column when \<open>axis = 0\<close>, a row when \<open>axis = 1\<close>) over
  the part of the other range that lies in the image; \<open>NaN\<close> when that part is empty.
\<close>

definition line_mean :: "ndarray \<Rightarrow> int \<times> int \<Rightarrow> int \<times> int \<Rightarrow> nat \<Rightarrow> nat \<Rightarrow> sample" where
  "line_mean img rowRange colRange axis x =
     (if axis = 0
      then mean_list (map (\<lambda>r. px img r x)
             [nat (min (max 0 (fst rowRange)) (int (nrows img)))..<
              nat (min (max 0 (snd rowRange)) (int (nrows img)))])
      else mean_list (map (\<lambda>c. px img x c)
             [nat (min (max 0 (fst colRange)) (int (ncols img)))..<
              nat (min (max 0 (snd colRange)) (int (ncols img)))]))"

subsection \<open>ProfileToolBar.updateProfile\<close>

text \<open>
  What \<open>updateProfile\<close> hands to the profile window and to the plot: the curve of a profile
  with the corners of its area. The profile of a line that is aligned with no axis is
  computed by \<open>BilinearImage.profile_line\<close> of \<open>silx.image.bilinear\<close>, which is not part of
  these sources: that case is kept as \<open>Bilinear\<close> with the end points, once ordered, and the
  width. The titles and labels of the curve are left out.
\<close>

datatype drawn =
  Curve "sample list" "real list \<times> real list"
| Bilinear "real \<times> real" "real \<times> real" int

datatype lineProjectionMode = X | Y | D

record activeImage =
  imgData :: ndarray
  imgOrigin :: "real \<times> real"
  imgScale :: "real \<times> real"

text \<open>The range of width \<open>roiWidth\<close> around the row or column \<open>p\<close> (lines 554 and 562).\<close>

definition centredRange :: "int \<Rightarrow> int \<Rightarrow> int \<times> int" where
  "centredRange p roiWidth =
     (py_int (real_of_int p + 0.5 - 0.5 * real_of_int roiWidth),
      py_int (real_of_int p + 0.5 + 0.5 * real_of_int roiWidth))"

text \<open>Lines 533 to 617, the profile of a free line.\<close>

definition freeLineProfile ::
  "ndarray \<Rightarrow> real \<times> real \<Rightarrow> real \<times> real \<Rightarrow> int \<Rightarrow> real \<times> real \<Rightarrow> real \<times> real
     \<Rightarrow> error + drawn" where
  "freeLineProfile img origin scale roiWidth roiStart roiEnd =
     (if snd scale = 0 \<or> fst scale = 0 then Inl ZeroDivisionError
      else
        let startPt = ((snd roiStart - snd origin) / snd scale,
                       (fst roiStart - fst origin) / fst scale);
            endPt = ((snd roiEnd - snd origin) / snd scale,
                     (fst roiEnd - fst origin) / fst scale)
        in if py_int (fst startPt) = py_int (fst endPt)
              \<or> py_int (snd startPt) = py_int (snd endPt)
           then
             let startPt = (py_int (fst startPt), py_int (snd startPt));
                 endPt = (py_int (fst endPt), py_int (snd endPt));
                 (startPt, endPt) =
                   (if fst startPt > fst endPt \<or> snd startPt > snd endPt
                    then (endPt, startPt) else (startPt, endPt));
                 (rowRange, colRange, axis) =
                   (if fst startPt = fst endPt
                    then (centredRange (fst startPt) roiWidth,
                          (snd startPt, snd endPt + 1), 0)
                    else ((fst startPt, fst endPt + 1),
                          centredRange (snd startPt) roiWidth, 1))
             in case alignedPartialProfile img rowRange colRange axis of
                  Inl e \<Rightarrow> Inl e
                | Inr profile \<Rightarrow>
                    Inr (Curve profile
                      (map (\<lambda>v. real_of_int v * fst scale + fst origin)
                         [fst colRange, snd colRange, snd colRange, fst colRange],
                       map (\<lambda>v. real_of_int v * snd scale + snd origin)
                         [fst rowRange, fst rowRange, snd rowRange, snd rowRange]))
           else
             let (startPt, endPt) =
                   (if snd startPt > snd endPt
                       \<or> (snd startPt = snd endPt \<and> fst startPt > fst endPt)
                    then (endPt, startPt) else (startPt, endPt))
             in Inr (Bilinear startPt endPt roiWidth))"

text \<open>
  The whole of \<open>updateProfile\<close>, as a function of the state it reads: the ROI (\<open>_roiInfo\<close>),
  the active image of the plot and the value of the width spin box. \<open>None\<close> is returned when
  nothing is drawn.
\<close>

definition updateProfile ::
  "((real \<times> real) \<times> (real \<times> real) \<times> lineProjectionMode) option \<Rightarrow> activeImage option
     \<Rightarrow> int \<Rightarrow> error + drawn option" where
  "updateProfile roiInfo imageData spinBoxValue =
     (case roiInfo of
        None \<Rightarrow> Inr None
      | Some (roiStart, roiEnd, lineProjectionMode) \<Rightarrow>
        (case imageData of
           None \<Rightarrow> Inr None
         | Some im \<Rightarrow>
           let roiWidth = max 1 spinBoxValue in
           (case lineProjectionMode of
              X \<Rightarrow>
                (case alignedFullProfile (imgData im) (imgOrigin im) (imgScale im)
                        (snd roiStart) roiWidth 0 of
                   Inl e \<Rightarrow> Inl e
                 | Inr (profile, area) \<Rightarrow> Inr (Some (Curve profile area)))
            | Y \<Rightarrow>
                (case alignedFullProfile (imgData im) (imgOrigin im) (imgScale im)
                        (fst roiStart) roiWidth 1 of
                   Inl e \<Rightarrow> Inl e
                 | Inr (profile, area) \<Rightarrow> Inr (Some (Curve profile area)))
            | D \<Rightarrow>
                (case freeLineProfile (imgData im) (imgOrigin im) (imgScale im) roiWidth
                        roiStart roiEnd of
                   Inl e \<Rightarrow> Inl e
                 | Inr d \<Rightarrow> Inr (Some d)))))"

text \<open>The image \<open>[[7]]\<close>.\<close>

definition img1x1 :: ndarray where
  "img1x1 = \<lparr>nrows = 1, ncols = 1, px = (\<lambda>r c. 7)\<rparr>"

text \<open>The image \<open>[[7]]\<close> as the active image of the plot, with origin \<open>(0, 0)\<close> and scale \<open>(1, 1)\<close>.\<close>

definition active1x1 :: activeImage where
  "active1x1 = \<lparr>imgData = img1x1, imgOrigin = (0, 0), imgScale = (1, 1)\<rparr>"

text \<open>The image \<open>[[1, 2], [3, 4]]\<close> as the active image, with the same origin and scale.\<close>

definition active2x2 :: activeImage where
  "active2x2 = \<lparr>imgData = img2x2, imgOrigin = (0, 0), imgScale = (1, 1)\<rparr>"

section \<open>Mesh generation (silx/gui/plot3d/items/mesh.py)\<close>

subsection \<open>Vectors and the scene\<close>

text \<open>
  A row of a \<open>(N, 3)\<close> array: a vertex or a normal. Coordinates are modelled by exact reals,
  as the samples of a profile are.
\<close>

type_synonym vec3 = "real \<times> real \<times> real"

fun vadd :: "vec3 \<Rightarrow> vec3 \<Rightarrow> vec3" where
  "vadd (a1, a2, a3) (b1, b2, b3) = (a1 + b1, a2 + b2, a3 + b3)"

fun vsub :: "vec3 \<Rightarrow> vec3 \<Rightarrow> vec3" where
  "vsub (a1, a2, a3) (b1, b2, b3) = (a1 - b1, a2 - b2, a3 - b3)"

text \<open>\<^verbatim>\<open>numpy.cross\<close> of two vectors of three components.\<close>

fun cross :: "vec3 \<Rightarrow> vec3 \<Rightarrow> vec3" where
  "cross (a1, a2, a3) (b1, b2, b3) =
     (a2 * b3 - a3 * b2, a3 * b1 - a1 * b3, a1 * b2 - a2 * b1)"

type_synonym color = "real list"

text \<open>
  Modelled from the spec: \<open>primitives.Mesh3D\<close>, the mesh object of the scene, belongs to
  \<open>silx.gui.plot3d.scene\<close>, which is not part of these sources. It keeps the buffers it is
  given and checks that the mode is one of the recognized draw modes.
\<close>

record mesh3D =
  attrPosition :: "vec3 list"
  attrColor :: color
  attrNormal :: "vec3 list option"
  drawMode :: string

definition drawModes :: "string list" where
  "drawModes = [''points'', ''lines'', ''line_strip'', ''loop'',
                ''triangles'', ''triangle_strip'', ''fan'']"

definition Mesh3D :: "vec3 list \<Rightarrow> color \<Rightarrow> vec3 list option \<Rightarrow> string \<Rightarrow> error + mesh3D" where
  "Mesh3D position color normal mode =
     (if mode \<in> set drawModes
      then Inr \<lparr>attrPosition = position, attrColor = color, attrNormal = normal,
                drawMode = mode\<rparr>
      else Inl AssertionError)"

text \<open>
  What the attribute \<open>_mesh\<close> of an item holds: \<open>None\<close>, an integer, or a mesh object.
\<close>

datatype mesh_ref = PyNone | PyInt int | MeshObj mesh3D

text \<open>
  The state of a \<open>DataItem3D\<close> that \<open>setData\<close> touches: the children of its scene primitive
  and its attribute \<open>_mesh\<close>.
\<close>

record item3D =
  children :: "mesh3D list"
  meshRef :: mesh_ref

text \<open>An item as \<open>__init__\<close> leaves it, before the first \<open>setData\<close>.\<close>

definition newItem :: item3D where
  "newItem = \<lparr>children = [], meshRef = PyNone\<rparr>"

subsection \<open>Mesh\<close>

definition Mesh_setData ::
  "item3D \<Rightarrow> vec3 list option \<Rightarrow> color \<Rightarrow> vec3 list option \<Rightarrow> string \<Rightarrow> error + item3D" where
  "Mesh_setData self position color normal mode =
     (let self = self\<lparr>children := []\<rparr> in
      case position of
        None \<Rightarrow> Inr (self\<lparr>meshRef := PyInt 0\<rparr>)
      | Some position \<Rightarrow>
          if length position = 0 then Inr (self\<lparr>meshRef := PyInt 0\<rparr>)
          else (case Mesh3D position color normal mode of
                  Inl e \<Rightarrow> Inl e
                | Inr m \<Rightarrow> Inr (self\<lparr>meshRef := MeshObj m, children := children self @ [m]\<rparr>)))"

text \<open>
  The getters test \<open>self._mesh is None\<close>; on any other value they call
  \<open>self._mesh.getAttribute\<close>, which an integer does not have.
\<close>

definition getPositionData :: "item3D \<Rightarrow> error + vec3 list" where
  "getPositionData self =
     (case meshRef self of
        PyNone \<Rightarrow> Inr []
      | PyInt i \<Rightarrow> Inl AttributeError
      | MeshObj m \<Rightarrow> Inr (attrPosition m))"

definition getColorData :: "item3D \<Rightarrow> error + color" where
  "getColorData self =
     (case meshRef self of
        PyNone \<Rightarrow> Inr []
      | PyInt i \<Rightarrow> Inl AttributeError
      | MeshObj m \<Rightarrow> Inr (attrColor m))"

definition getNormalData :: "item3D \<Rightarrow> error + vec3 list option" where
  "getNormalData self =
     (case meshRef self of
        PyNone \<Rightarrow> Inr None
      | PyInt i \<Rightarrow> Inl AttributeError
      | MeshObj m \<Rightarrow> Inr (attrNormal m))"

definition getDrawMode :: "item3D \<Rightarrow> error + string" where
  "getDrawMode self =
     (case meshRef self of
        PyNone \<Rightarrow> Inl AttributeError
      | PyInt i \<Rightarrow> Inl AttributeError
      | MeshObj m \<Rightarrow> Inr (drawMode m))"

subsection \<open>_CylindricalVolume\<close>

text \<open>
  One turn of the loop of \<open>_setData\<close>, for the sector between the angles \<open>a0 = angles[i]\<close>
  and \<open>a1 = angles[i + 1]\<close>: the 12 vertices \<open>volume[i]\<close> and the 12 normals \<open>normal[i]\<close>.
\<close>

definition sector :: "real \<Rightarrow> real \<Rightarrow> real \<Rightarrow> real \<Rightarrow> bool \<Rightarrow> vec3 list \<times> vec3 list" where
  "sector radius height a0 a1 flatFaces =
     (let c1 = (0, 0, - height / 2);
          c2 = (radius * cos a0, radius * sin a0, - height / 2);
          c3 = (radius * cos a1, radius * sin a1, - height / 2);
          c4 = (radius * cos a0, radius * sin a0, height / 2);
          c5 = (radius * cos a1, radius * sin a1, height / 2);
          c6 = (0, 0, height / 2);
          volume = [c1, c3, c2,
                    c2, c3, c4,
                    c3, c5, c4,
                    c4, c5, c6];
          normal =
            (if flatFaces
             then [cross (vsub c3 c1) (vsub c2 c1),
                   cross (vsub c2 c3) (vsub c1 c3),
                   cross (vsub c1 c2) (vsub c3 c2),
                   cross (vsub c3 c2) (vsub c4 c2),
                   cross (vsub c4 c3) (vsub c2 c3),
                   cross (vsub c2 c4) (vsub c3 c4),
                   cross (vsub c5 c3) (vsub c4 c3),
                   cross (vsub c4 c5) (vsub c3 c5),
                   cross (vsub c3 c4) (vsub c5 c4),
                   cross (vsub c5 c4) (vsub c6 c4),
                   cross (vsub c6 c5) (vsub c5 c5),
                   cross (vsub c4 c6) (vsub c5 c6)]
             else [cross (vsub c3 c1) (vsub c2 c1),
                   cross (vsub c2 c3) (vsub c1 c3),
                   cross (vsub c1 c2) (vsub c3 c2),
                   vsub c2 c1, vsub c3 c1, vsub c4 c6,
                   vsub c3 c1, vsub c5 c6, vsub c4 c6,
                   cross (vsub c5 c4) (vsub c6 c4),
                   cross (vsub c6 c5) (vsub c5 c5),
                   cross (vsub c4 c6) (vsub c5 c6)])
      in (volume, normal))"

text \<open>
  \<open>_setData\<close>. \<^verbatim>\<open>numpy.empty\<close> refuses the negative dimension that an empty \<open>angles\<close>
  gives. The sectors are repeated once per position, and each copy is moved by its position.
\<close>

definition CylindricalVolume_setData ::
  "item3D \<Rightarrow> vec3 list option \<Rightarrow> real \<Rightarrow> real \<Rightarrow> real list \<Rightarrow> color \<Rightarrow> bool
     \<Rightarrow> error + item3D" where
  "CylindricalVolume_setData self position radius height angles color flatFaces =
     (let self = self\<lparr>children := []\<rparr> in
      case position of
        None \<Rightarrow> Inr (self\<lparr>meshRef := PyInt 0\<rparr>)
      | Some position \<Rightarrow>
          if length position = 0 then Inr (self\<lparr>meshRef := PyInt 0\<rparr>)
          else if length angles = 0 then Inl ValueError
          else
            let n = length angles - 1;
                sectors = map (\<lambda>i. sector radius height (angles ! i) (angles ! (i + 1))
                                   flatFaces) [0..<n];
                volume = map fst sectors;
                normal = map snd sectors;
                vertices = concat (replicate (length position) (concat volume));
                normals = concat (replicate (length position) (concat normal));
                vertices = map2 vadd vertices (concat (map (replicate (n * 12)) position))
            in (case Mesh3D vertices color (Some normals) ''triangles'' of
                  Inl e \<Rightarrow> Inl e
                | Inr m \<Rightarrow> Inr (self\<lparr>meshRef := MeshObj m, children := children self @ [m]\<rparr>)))"

subsection \<open>Box, Cylinder and Hexagon\<close>

text \<open>
  The angles of a box (lines 284 to 293). When both sides are 0 the diagonal is 0 and numpy
  divides by it without raising: the angles, and the vertices after them, are NaN, which a
  real cannot hold; the model returns \<open>ValueError\<close> there.
\<close>

definition Box_angles :: "vec3 \<Rightarrow> error + real list" where
  "Box_angles boxSize =
     (case boxSize of (sx, sy, sz) \<Rightarrow>
        let diagonal = sqrt (sx\<^sup>2 + sy\<^sup>2) in
        if diagonal = 0 then Inl ValueError
        else
          let alpha = 2 * arcsin (sy / diagonal);
              beta = 2 * arcsin (sx / diagonal);
              angles = [0, alpha, alpha + beta, alpha + beta + alpha, 2 * pi];
              phase = 0.5 * alpha
          in Inr (map (\<lambda>a. a - phase) angles))"

text \<open>
  The positions are taken as the \<open>(N, 3)\<close> array that \<^verbatim>\<open>numpy.atleast_2d\<close> returns. The
  attributes \<open>position\<close>, \<open>size\<close> and \<open>color\<close>, which only keep the arguments, are left out;
  \<open>boxSize\<close> is the argument \<open>size\<close>.
\<close>

definition Box_setData :: "item3D \<Rightarrow> vec3 list \<Rightarrow> vec3 \<Rightarrow> color \<Rightarrow> error + item3D" where
  "Box_setData self position boxSize color =
     (case Box_angles boxSize of
        Inl e \<Rightarrow> Inl e
      | Inr angles \<Rightarrow>
          (case boxSize of (sx, sy, sz) \<Rightarrow>
             CylindricalVolume_setData self (Some position) (sqrt (sx\<^sup>2 + sy\<^sup>2) / 2) sz
               angles color True))"

text \<open>
  \<^verbatim>\<open>numpy.linspace(start, stop, num)\<close>: \<open>num\<close> values at equal steps, the last one set to
  \<open>stop\<close>; a negative \<open>num\<close> is a ValueError.
\<close>

definition linspace :: "real \<Rightarrow> real \<Rightarrow> int \<Rightarrow> error + real list" where
  "linspace start stop num =
     (if num < 0 then Inl ValueError
      else
        let n = nat num in
        if n = 1 then Inr [start]
        else Inr (map (\<lambda>i. if i = n - 1 then stop
                            else start + real i * ((stop - start) / real (n - 1))) [0..<n]))"

definition Cylinder_setData ::
  "item3D \<Rightarrow> vec3 list \<Rightarrow> real \<Rightarrow> real \<Rightarrow> color \<Rightarrow> int \<Rightarrow> error + item3D" where
  "Cylinder_setData self position radius height color nbFaces =
     (case linspace 0 (2 * pi) (nbFaces + 1) of
        Inl e \<Rightarrow> Inl e
      | Inr angles \<Rightarrow>
          CylindricalVolume_setData self (Some position) radius height angles color False)"

text \<open>\<^verbatim>\<open>numpy.deg2rad\<close>.\<close>

definition deg2rad :: "real \<Rightarrow> real" where
  "deg2rad d = d * pi / 180"

definition Hexagon_setData ::
  "item3D \<Rightarrow> vec3 list \<Rightarrow> real \<Rightarrow> real \<Rightarrow> color \<Rightarrow> real \<Rightarrow> error + item3D" where
  "Hexagon_setData self position radius height color phase =
     (let phase = deg2rad phase in
      case linspace phase (2 * pi + phase) 7 of
        Inl e \<Rightarrow> Inl e
      | Inr angles \<Rightarrow>
          CylindricalVolume_setData self (Some position) radius height angles color True)"

text \<open>
  The bounding box of a buffer of vertices: the minimum and the maximum of each coordinate.
\<close>

fun list_min :: "real list \<Rightarrow> real" where
  "list_min (x # xs) = fold min xs x"

fun list_max :: "real list \<Rightarrow> real" where
  "list_max (x # xs) = fold max xs x"

definition bbox :: "vec3 list \<Rightarrow> vec3 \<times> vec3" where
  "bbox vs =
     ((list_min (map fst vs), list_min (map (fst \<circ> snd) vs), list_min (map (snd \<circ> snd) vs)),
      (list_max (map fst vs), list_max (map (fst \<circ> snd) vs), list_max (map (snd \<circ> snd) vs)))"

section \<open>Position readout (PositionInfo of silx/gui/plot/PlotTools.py)\<close>

text \<open>
  What a converter returns: a number (\<open>numbers.Real\<close>), or any other object, which is given
  here by the string that \<open>str\<close> makes of it. A converter is a function of the position that
  returns a value or raises.
\<close>

datatype pyvalue = Real real | Other string

type_synonym converter = "real \<Rightarrow> real \<Rightarrow> error + pyvalue"

text \<open>A \<open>QLineEdit\<close>: the text it shows and its style sheet.\<close>

record lineEdit =
  editText :: string
  editStyle :: string

text \<open>
  The plot, as far as \<open>_plotEvent\<close> reads it: whether a graph cursor is set, the active curve
  if there is one (its points, its symbol, which may be empty, and its y axis), and the
  conversion from data to pixel coordinates, which has no result outside the plot area.
\<close>

record curve =
  points :: "(real \<times> real) list"
  symbol :: string
  yaxis :: string

record plot =
  getGraphCursor :: bool
  getActiveCurve :: "curve option"
  dataToPixel :: "real \<Rightarrow> real \<Rightarrow> string \<Rightarrow> (real \<times> real) option"

record positionInfo =
  autoSnapToActiveCurve :: bool
  infoFields :: "(lineEdit \<times> string \<times> converter) list"

text \<open>A plot event: a move of the mouse, with its position in data and in pixels, or another event.\<close>

datatype event = MouseMoved real real real real | OtherEvent string

text \<open>
  \<^verbatim>\<open>numpy.argmin\<close>: the first index of the least value; on an empty array it raises a
  ValueError.
\<close>

fun argmin_from :: "real list \<Rightarrow> nat \<Rightarrow> nat \<Rightarrow> real \<Rightarrow> nat" where
  "argmin_from [] i best least = best"
| "argmin_from (d # ds) i best least =
     (if d < least then argmin_from ds (i + 1) i d else argmin_from ds (i + 1) best least)"

fun argmin :: "real list \<Rightarrow> error + nat" where
  "argmin [] = Inl ValueError"
| "argmin (d # ds) = Inr (argmin_from ds 1 0 d)"

text \<open>
  Lines 155 to 185: the position handed to the converters and the style of the fields. With
  snapping on and a graph cursor, the style is red unless the point of the active curve
  that is closest to the mouse lies less than 5 pixels away, in which case the position
  becomes what \<open>dataToPixel\<close> returned for that point.
\<close>

definition snapPosition ::
  "positionInfo \<Rightarrow> plot \<Rightarrow> real \<Rightarrow> real \<Rightarrow> real \<Rightarrow> real \<Rightarrow> error + (real \<times> real \<times> string)" where
  "snapPosition self plt x y xPixel yPixel =
     (if autoSnapToActiveCurve self \<and> getGraphCursor plt
      then
        (case getActiveCurve plt of
           None \<Rightarrow> Inr (x, y, ''color: rgb(255, 0, 0);'')
         | Some activeCurve \<Rightarrow>
             if symbol activeCurve = [] then Inr (x, y, ''color: rgb(255, 0, 0);'')
             else
               (case argmin (map (\<lambda>(xd, yd). (xd - x)\<^sup>2 + (yd - y)\<^sup>2) (points activeCurve)) of
                  Inl e \<Rightarrow> Inl e
                | Inr closestIndex \<Rightarrow>
                    (case points activeCurve ! closestIndex of (xClosest, yClosest) \<Rightarrow>
                       (case dataToPixel plt xClosest yClosest (yaxis activeCurve) of
                          None \<Rightarrow> Inr (x, y, ''color: rgb(255, 0, 0);'')
                        | Some (xClosest, yClosest) \<Rightarrow>
                            if \<bar>xClosest - xPixel\<bar> < 5 \<and> \<bar>yClosest - yPixel\<bar> < 5
                            then Inr (xClosest, yClosest, ''color: rgb(0, 0, 0);'')
                            else Inr (x, y, ''color: rgb(255, 0, 0);'')))))
      else Inr (x, y, ''color: rgb(0, 0, 0);''))"

text \<open>
  Lines 199 to 203: the text of a converted value. The format \<^verbatim>\<open>'%.7g'\<close> of numbers is
  the parameter \<open>fmt7g\<close>.
\<close>

definition formatValue :: "(real \<Rightarrow> string) \<Rightarrow> pyvalue \<Rightarrow> string" where
  "formatValue fmt7g v = (case v of Real r \<Rightarrow> fmt7g r | Other s \<Rightarrow> s)"

text \<open>
  One turn of the loop of lines 187 to 203, on one field. The messages written to the
  logger when the converter raises are left out.
\<close>

definition updateField ::
  "(real \<Rightarrow> string) \<Rightarrow> string \<Rightarrow> real \<Rightarrow> real \<Rightarrow> lineEdit \<times> string \<times> converter
     \<Rightarrow> lineEdit \<times> string \<times> converter" where
  "updateField fmt7g styleSheet x y field =
     (case field of (lineEdit, name, func) \<Rightarrow>
        let lineEdit = lineEdit\<lparr>editStyle := styleSheet\<rparr> in
        (case func x y of
           Inl e \<Rightarrow> (lineEdit\<lparr>editText := ''Error''\<rparr>, name, func)
         | Inr v \<Rightarrow> (lineEdit\<lparr>editText := formatValue fmt7g v\<rparr>, name, func)))"

definition plotEvent ::
  "(real \<Rightarrow> string) \<Rightarrow> plot \<Rightarrow> positionInfo \<Rightarrow> event \<Rightarrow> error + positionInfo" where
  "plotEvent fmt7g plt self ev =
     (case ev of
        OtherEvent name \<Rightarrow> Inr self
      | MouseMoved x y xPixel yPixel \<Rightarrow>
          (case snapPosition self plt x y xPixel yPixel of
             Inl e \<Rightarrow> Inl e
           | Inr (x, y, styleSheet) \<Rightarrow>
               Inr (self\<lparr>infoFields := map (updateField fmt7g styleSheet x y) (infoFields self)\<rparr>)))"

text \<open>
  An example: a plot without cursor nor curve, and a readout of three fields whose second
  converter raises; numbers are shown as \<open>#\<close> there.
\<close>

definition plot0 :: plot where
  "plot0 = \<lparr>getGraphCursor = False, getActiveCurve = None, dataToPixel = (\<lambda>x y a. None)\<rparr>"

definition info3 :: positionInfo where
  "info3 = \<lparr>autoSnapToActiveCurve = False,
             infoFields = [(\<lparr>editText = ''------'', editStyle = []\<rparr>, ''X'', (\<lambda>x y. Inr (Real x))),
                       (\<lparr>editText = ''------'', editStyle = []\<rparr>, ''Bad'', (\<lambda>x y. Inl ValueError)),
                       (\<lparr>editText = ''------'', editStyle = []\<rparr>, ''Name'', (\<lambda>x y. Inr (Other ''p'')))]\<rparr>"

section \<open>Properties of the profile extraction\<close>

lemma py_int_of_int [simp]: "py_int (real_of_int k) = k"
  by (simp add: py_int_def)

lemma roi_band_eq:
  "roi_band height imgPos roiWidth =
     (min height roiWidth,
      min (max 0 (roi_start height imgPos roiWidth)) (height - min height roiWidth),
      min (max 0 (roi_start height imgPos roiWidth)) (height - min height roiWidth)
        + min height roiWidth)"
  by (simp add: roi_band_def roi_start_def Let_def)

lemma clamped_start_inside:
  fixes height roiWidth s0 :: int
  assumes "1 \<le> height" "1 \<le> roiWidth"
  defines "w \<equiv> min height roiWidth"
  defines "s \<equiv> min (max 0 s0) (height - w)"
  shows "0 \<le> s" "s + w \<le> height" "s < height" "0 < s + w" "1 \<le> w" "w \<le> height"
  using assms by auto

lemma mean_rows_inside:
  assumes "0 \<le> s" "1 \<le> k" "s + k \<le> int (nrows a)"
  shows "nd_mean (nd_rows a (max 0 s) (min (s + k) (int (nrows a)))) 0 = band_mean a (nat s) (nat k)"
proof -
  have e: "max 0 s = s" "min (s + k) (int (nrows a)) = s + k"
    using assms by simp_all
  have lo: "slice_bound s (nrows a) = nat s"
    using assms by (simp add: slice_bound_def)
  have hi: "slice_bound (s + k) (nrows a) = nat s + nat k"
    using assms by (simp add: slice_bound_def nat_add_distrib)
  have m: "map (\<lambda>r. px a (nat s + r) c) [0..<nat k] = map (\<lambda>r. px a r c) [nat s..<nat s + nat k]" for c
    by (simp add: map_add_upt[symmetric] o_def add.commute del: map_add_upt)
  show ?thesis
    using assms
    by (simp add: nd_mean_def nd_rows_def Let_def e lo hi band_mean_def mean_list_def m)
qed


lemma alignedFullProfile_profile:
  assumes ax: "axis = 0 \<or> axis = 1" and sc: "sel scale (1 - axis) \<noteq> 0"
    and h: "1 \<le> nrows (oriented img axis)" and w: "1 \<le> roiWidth"
    and rb: "roi_band (int (nrows (oriented img axis)))
               (imgPos_of origin scale position axis) roiWidth = (k, s, e)"
  shows "\<exists>area. alignedFullProfile img origin scale position roiWidth axis =
           Inr (band_mean (oriented img axis) (nat s) (nat k), area)"
    and "k = min (int (nrows (oriented img axis))) roiWidth"
    and "0 \<le> s" and "s + k \<le> int (nrows (oriented img axis))" and "e = s + k"
    and "band_intersects (int (nrows (oriented img axis))) s e"
proof -
  let ?h = "int (nrows (oriented img axis))"
  let ?s0 = "roi_start ?h (imgPos_of origin scale position axis) roiWidth"
  from rb have k: "k = min ?h roiWidth" and s: "s = min (max 0 ?s0) (?h - k)"
    and e: "e = s + k"
    by (auto simp add: roi_band_eq)
  have hh: "1 \<le> ?h" using h by simp
  from clamped_start_inside[OF hh w]
  have b: "0 \<le> s" "s + k \<le> ?h" "s < ?h" "0 < s + k" "1 \<le> k"
    by (simp_all add: k s)
  show "k = min ?h roiWidth" by (rule k)
  show "0 \<le> s" by (rule b)
  show "s + k \<le> ?h" by (rule b)
  show "e = s + k" by (rule e)
  show bi: "band_intersects ?h s e" using b by (simp add: band_intersects_def e)
  have m: "nd_mean (nd_rows (oriented img axis) (max 0 s) (min e ?h)) 0 =
           band_mean (oriented img axis) (nat s) (nat k)"
    unfolding e using b by (intro mean_rows_inside) simp_all
  show "\<exists>area. alignedFullProfile img origin scale position roiWidth axis =
           Inr (band_mean (oriented img axis) (nat s) (nat k), area)"
    using ax sc bi by (simp add: alignedFullProfile_def Let_def rb m)
qed

lemma length_band_mean [simp]: "length (band_mean a s k) = ncols a"
  by (simp add: band_mean_def)

text \<open>
  C10. In \<open>_alignedFullProfile\<close>, for an image with at least one row (after the transpose of
  a vertical profile) and a width of at least 1, the band of lines 412 to 417 satisfies
  \<open>0 \<le> start\<close> and \<open>start + min height roiWidth \<le> height\<close>; the test of line 419 holds, so
  the zero profile of line 423 is never returned, and the profile is the mean of
  \<open>min height roiWidth\<close> rows of the image, whatever the position.
\<close>

theorem alignedFullProfile_band_in_image:
  assumes "axis = 0 \<or> axis = 1" and "sel scale (1 - axis) \<noteq> 0"
    and "1 \<le> nrows (oriented img axis)" and "1 \<le> roiWidth"
    and "roi_band (int (nrows (oriented img axis)))
           (imgPos_of origin scale position axis) roiWidth = (k, start, end')"
  shows "0 \<le> start
       \<and> start + min (int (nrows (oriented img axis))) roiWidth
            \<le> int (nrows (oriented img axis))
       \<and> band_intersects (int (nrows (oriented img axis))) start end'
       \<and> (\<exists>area. alignedFullProfile img origin scale position roiWidth axis =
             Inr (band_mean (oriented img axis) (nat start)
                    (nat (min (int (nrows (oriented img axis))) roiWidth)), area))"
  using alignedFullProfile_profile[OF assms] by simp

theorem alignedFullProfile_band_in_image_witness:
  "((0::nat) = 0 \<or> (0::nat) = 1) \<and> sel ((1, 1) :: real \<times> real) (1 - 0) \<noteq> 0
   \<and> 1 \<le> nrows (oriented img2x2 0) \<and> (1::int) \<le> 1
   \<and> roi_band (int (nrows (oriented img2x2 0))) (imgPos_of (0, 0) (1, 1) 10 0) 1 = (1, 1, 2)
   \<and> (0::int) \<le> 1 \<and> 1 + min (int (nrows (oriented img2x2 0))) 1 \<le> int (nrows (oriented img2x2 0))
   \<and> band_intersects (int (nrows (oriented img2x2 0))) 1 2
   \<and> (\<exists>area. alignedFullProfile img2x2 (0, 0) (1, 1) 10 1 0 =
          Inr (band_mean (oriented img2x2 0) (nat 1)
                 (nat (min (int (nrows (oriented img2x2 0))) 1)), area))"
proof -
  have a: "(0::nat) = 0 \<or> (0::nat) = 1" by simp
  have b: "sel ((1, 1) :: real \<times> real) (1 - 0) \<noteq> 0" by (simp add: sel_def)
  have c: "1 \<le> nrows (oriented img2x2 0)" by (simp add: oriented_def img2x2_def)
  have d: "(1::int) \<le> 1" by simp
  have e: "roi_band (int (nrows (oriented img2x2 0))) (imgPos_of (0, 0) (1, 1) 10 0) 1 = (1, 1, 2)"
    by (simp add: roi_band_def imgPos_of_def sel_def py_int_def oriented_def img2x2_def)
  from alignedFullProfile_band_in_image[OF a b c d e]
  show ?thesis using a b c d e by blast
qed

text \<open>
  C1, as stated, fails. On the image \<open>[[1, 2], [3, 4]]\<close> with origin \<open>(0, 0)\<close> and scale
  \<open>(1, 1)\<close>, a horizontal profile of width 1 requested at position 10 asks for the band
  \<open>[10, 11[\<close>, which is entirely outside the rows \<open>[0, 2[\<close>; the profile returned is the last
  row \<open>[3, 4]\<close>, not \<open>[0, 0]\<close>.
\<close>

theorem alignedFullProfile_outside_not_zero:
  "roi_start 2 (imgPos_of (0, 0) (1, 1) 10 0) 1 = 10
   \<and> \<not> band_intersects 2 10 (10 + 1)
   \<and> alignedFullProfile img2x2 (0, 0) (1, 1) 10 1 0 =
        Inr ([Fin 3, Fin 4], ([0, 2, 2, 0], [1, 1, 2, 2]))
   \<and> [Fin 3, Fin 4] \<noteq> replicate 2 (Fin 0)"
  by (simp add: alignedFullProfile_def sel_def imgPos_of_def py_int_def oriented_def
      roi_band_def roi_start_def Let_def band_intersects_def nd_mean_def nd_rows_def
      slice_bound_def mean_list_def upt_conv_Cons img2x2_def numeral_2_eq_2)

text \<open>
  C1, amended. For an image with at least one row (after the transpose of a vertical
  profile), a width of at least 1 and a scale that is not 0: when the band requested on
  line 415 lies entirely outside the image, line 416 moves it to the nearest edge of the
  image, and the profile returned is the mean of the \<open>min height roiWidth\<close> rows at that edge
  (the last rows when the band is beyond the last row, the first rows when it is before
  row 0), not zeros. Its length is the extent of the image along the profile axis, as for a
  band inside the image.
\<close>

theorem alignedFullProfile_outside_band_clamped:
  assumes "axis = 0 \<or> axis = 1" and "sel scale (1 - axis) \<noteq> 0"
    and "1 \<le> nrows (oriented img axis)" and "1 \<le> roiWidth"
    and "s0 = roi_start (int (nrows (oriented img axis)))
                (imgPos_of origin scale position axis) roiWidth"
    and "k = min (int (nrows (oriented img axis))) roiWidth"
    and "\<not> band_intersects (int (nrows (oriented img axis))) s0 (s0 + k)"
  shows "\<exists>profile area.
           alignedFullProfile img origin scale position roiWidth axis = Inr (profile, area)
         \<and> profile = band_mean (oriented img axis)
              (if int (nrows (oriented img axis)) \<le> s0
               then nat (int (nrows (oriented img axis)) - k) else 0) (nat k)
         \<and> length profile = ncols (oriented img axis)"
proof -
  let ?h = "int (nrows (oriented img axis))"
  let ?s = "if ?h \<le> s0 then ?h - k else 0"
  have k1: "1 \<le> k" "k \<le> ?h" using assms(3,4,6) by simp_all
  have "min (max 0 s0) (?h - k) = ?s"
    using assms(7) k1 by (auto simp add: band_intersects_def)
  then have rb: "roi_band ?h (imgPos_of origin scale position axis) roiWidth = (k, ?s, ?s + k)"
    using assms(5,6) by (simp add: roi_band_eq)
  from alignedFullProfile_profile(1)[OF assms(1-4) rb]
  obtain area where "alignedFullProfile img origin scale position roiWidth axis =
      Inr (band_mean (oriented img axis) (nat ?s) (nat k), area)"
    by blast
  moreover have "nat ?s = (if ?h \<le> s0 then nat (?h - k) else 0)" by simp
  ultimately show ?thesis by simp
qed

theorem alignedFullProfile_outside_band_clamped_witness:
  "((0::nat) = 0 \<or> (0::nat) = 1) \<and> sel ((1, 1) :: real \<times> real) (1 - 0) \<noteq> 0
   \<and> 1 \<le> nrows (oriented img2x2 0) \<and> (1::int) \<le> 1
   \<and> 10 = roi_start (int (nrows (oriented img2x2 0))) (imgPos_of (0, 0) (1, 1) 10 0) 1
   \<and> 1 = min (int (nrows (oriented img2x2 0))) 1
   \<and> \<not> band_intersects (int (nrows (oriented img2x2 0))) 10 (10 + 1)
   \<and> (\<exists>profile area.
           alignedFullProfile img2x2 (0, 0) (1, 1) 10 1 0 = Inr (profile, area)
         \<and> profile = band_mean (oriented img2x2 0)
              (if int (nrows (oriented img2x2 0)) \<le> 10
               then nat (int (nrows (oriented img2x2 0)) - 1) else 0) (nat 1)
         \<and> length profile = ncols (oriented img2x2 0))"
proof -
  have a: "(0::nat) = 0 \<or> (0::nat) = 1" by simp
  have b: "sel ((1, 1) :: real \<times> real) (1 - 0) \<noteq> 0" by (simp add: sel_def)
  have c: "1 \<le> nrows (oriented img2x2 0)" by (simp add: oriented_def img2x2_def)
  have d: "(1::int) \<le> 1" by simp
  have e: "10 = roi_start (int (nrows (oriented img2x2 0))) (imgPos_of (0, 0) (1, 1) 10 0) 1"
    by (simp add: roi_start_def imgPos_of_def sel_def py_int_def oriented_def img2x2_def)
  have f: "1 = min (int (nrows (oriented img2x2 0))) 1"
    by (simp add: oriented_def img2x2_def)
  have g: "\<not> band_intersects (int (nrows (oriented img2x2 0))) 10 (10 + 1)"
    by (simp add: band_intersects_def oriented_def img2x2_def)
  from alignedFullProfile_outside_band_clamped[OF a b c d e f g]
  show ?thesis using a b c d e f g by blast
qed

lemma roi_start_near:
  assumes "1 \<le> min height roiWidth"
  shows "imgPos < roi_start height imgPos roiWidth + min height roiWidth"
    and "0 \<le> imgPos \<Longrightarrow> roi_start height imgPos roiWidth \<le> imgPos"
  using assms unfolding roi_start_def py_int_def by (auto; linarith)+

text \<open>
  C3, as stated, fails: the start is not rounded. On a column of 5 rows with origin
  \<open>(0, 0)\<close> and scale \<open>(1, 1)\<close>, for position 2 and width 2 the code takes the band
  \<open>[1, 3[\<close> (\<open>int(2 + 0.5 - 1) = 1\<close>) and returns the mean of rows 1 and 2, where
  \<open>round (2 + 0.5 - 1) = 2\<close> gives the band \<open>[2, 4[\<close>.
\<close>

theorem roi_band_start_not_rounded:
  "roi_band 5 (imgPos_of (0, 0) (1, 1) 2 0) 2 = (2, 1, 3)
   \<and> spec_band 5 ((2 - 0) / 1) 2 = (2, 2, 4)
   \<and> alignedFullProfile img5x1 (0, 0) (1, 1) 2 2 0 =
        Inr ([Fin (3 / 2)], ([0, 1, 1, 0], [1, 1, 3, 3]))"
  by (simp add: alignedFullProfile_def sel_def imgPos_of_def py_int_def oriented_def
      roi_band_def spec_band_def round_def Let_def band_intersects_def nd_mean_def
      nd_rows_def slice_bound_def mean_list_def upt_conv_Cons img5x1_def)

text \<open>
  C3, amended. With \<open>idx = (position - origin[1 - axis]) / scale[1 - axis]\<close>, a scale that
  is not 0 and an image of at least one row (after the transpose of a vertical profile):
  \<open>_alignedFullProfile\<close> clips the width to \<open>min height roiWidth\<close>, and its caller
  \<open>updateProfile\<close> passes \<open>roiWidth = max 1 v\<close> for the value \<open>v\<close> of the spin box, so the
  width lies in \<open>[1, height]\<close>. The start is \<open>int (int idx + 0.5 - width / 2)\<close>, both
  conversions truncating towards zero, then clamped to \<open>[0, height - width]\<close>, and the end is
  \<open>start + width\<close>. The band lies inside the image and contains the row of the requested
  line whenever that row is in the image; the profile is the mean of the rows of the band.
\<close>

theorem alignedFullProfile_band_truncated:
  assumes "axis = 0 \<or> axis = 1" and "sel scale (1 - axis) \<noteq> 0"
    and "1 \<le> nrows (oriented img axis)"
    and "height = int (nrows (oriented img axis))"
    and "idx = (position - sel origin (1 - axis)) / sel scale (1 - axis)"
    and "roi_band height (imgPos_of origin scale position axis) (max 1 v) = (width, start, end')"
  shows "width = min height (max 1 v) \<and> 1 \<le> width \<and> width \<le> height
       \<and> start = min (max 0 (py_int (real_of_int (py_int idx) + 0.5 - real_of_int width / 2)))
                   (height - width)
       \<and> 0 \<le> start \<and> start \<le> height - width \<and> end' = start + width
       \<and> (0 \<le> py_int idx \<and> py_int idx < height \<longrightarrow> start \<le> py_int idx \<and> py_int idx < end')
       \<and> (\<exists>area. alignedFullProfile img origin scale position (max 1 v) axis =
             Inr (band_mean (oriented img axis) (nat start) (nat width), area))"
proof -
  let ?p = "imgPos_of origin scale position axis"
  have p: "?p = py_int idx" using assms(5) by (simp add: imgPos_of_def)
  have w1: "1 \<le> max 1 v" by simp
  have rb: "roi_band (int (nrows (oriented img axis))) ?p (max 1 v) = (width, start, end')"
    using assms(4,6) by simp
  note f = alignedFullProfile_profile[OF assms(1-3) w1 rb]
  have wd: "width = min height (max 1 v)" using f(2) assms(4) by simp
  have h1: "1 \<le> height" using assms(3,4) by simp
  have wb: "1 \<le> width" "width \<le> height" using wd h1 by simp_all
  have st: "start = min (max 0 (roi_start height ?p (max 1 v))) (height - width)"
    using assms(6) wd by (auto simp add: roi_band_eq)
  have st': "start = min (max 0 (py_int (real_of_int (py_int idx) + 0.5 - real_of_int width / 2)))
                   (height - width)"
    using st wd by (simp add: roi_start_def p)
  have en: "end' = start + width" by (rule f(5))
  have m1: "1 \<le> min height (max 1 v)" using wb wd by simp
  have cont: "start \<le> py_int idx \<and> py_int idx < end'"
    if "0 \<le> py_int idx" "py_int idx < height"
  proof -
    have a: "?p < roi_start height ?p (max 1 v) + width"
      using roi_start_near(1)[OF m1] wd by simp
    have b: "roi_start height ?p (max 1 v) \<le> ?p"
      using roi_start_near(2)[OF m1] that(1) p by simp
    show ?thesis
      using a[unfolded p] b[unfolded p] st[unfolded p] en that wb
      by (intro conjI; linarith)
  qed
  have sb: "start \<le> height - width" using f(4) assms(4) by linarith
  have im: "0 \<le> py_int idx \<and> py_int idx < height \<longrightarrow>
            start \<le> py_int idx \<and> py_int idx < end'"
    using cont by blast
  show ?thesis
    using wd wb st' f(3) sb en im f(1) by blast
qed

theorem alignedFullProfile_band_truncated_witness:
  "((0::nat) = 0 \<or> (0::nat) = 1) \<and> sel ((1, 1) :: real \<times> real) (1 - 0) \<noteq> 0
   \<and> 1 \<le> nrows (oriented img5x1 0)
   \<and> 5 = int (nrows (oriented img5x1 0))
   \<and> (2::real) = (2 - sel (0, 0) (1 - 0)) / sel (1, 1) (1 - 0)
   \<and> roi_band 5 (imgPos_of (0, 0) (1, 1) 2 0) (max 1 2) = (2, 1, 3)
   \<and> (2::int) = min 5 (max 1 2) \<and> (1::int) \<le> 2 \<and> (2::int) \<le> 5
   \<and> 1 = min (max 0 (py_int (real_of_int (py_int 2) + 0.5 - real_of_int 2 / 2))) (5 - 2)
   \<and> (0::int) \<le> 1 \<and> (1::int) \<le> 5 - 2 \<and> (3::int) = 1 + 2
   \<and> 0 \<le> py_int 2 \<and> py_int 2 < 5 \<and> 1 \<le> py_int 2 \<and> py_int 2 < 3
   \<and> (\<exists>area. alignedFullProfile img5x1 (0, 0) (1, 1) 2 (max 1 2) 0 =
          Inr (band_mean (oriented img5x1 0) (nat 1) (nat 2), area))"
proof -
  have a: "(0::nat) = 0 \<or> (0::nat) = 1" by simp
  have b: "sel ((1, 1) :: real \<times> real) (1 - 0) \<noteq> 0" by (simp add: sel_def)
  have c: "1 \<le> nrows (oriented img5x1 0)" by (simp add: oriented_def img5x1_def)
  have d: "5 = int (nrows (oriented img5x1 0))" by (simp add: oriented_def img5x1_def)
  have e: "(2::real) = (2 - sel (0, 0) (1 - 0)) / sel (1, 1) (1 - 0)" by (simp add: sel_def)
  have f: "roi_band 5 (imgPos_of (0, 0) (1, 1) 2 0) (max 1 2) = (2, 1, 3)"
    by (simp add: roi_band_def imgPos_of_def sel_def py_int_def)
  have g: "0 \<le> py_int 2 \<and> py_int 2 < 5" by (simp add: py_int_def)
  from alignedFullProfile_band_truncated[OF a b c d e f]
  show ?thesis using a b c d e f g by blast
qed

lemma slice_bound_nonneg: "0 \<le> i \<Longrightarrow> slice_bound i n = min (nat i) n"
  by (simp add: slice_bound_def)

lemma slice_assign_fits:
  assumes lo: "0 \<le> lo" and fit: "v = [] \<or> nat lo + length v \<le> length a"
  shows "\<exists>r. slice_assign a lo (lo + int (length v)) v = Inr r
           \<and> length r = length a
           \<and> (\<forall>j<length v. r ! (nat lo + j) = v ! j)
           \<and> (\<forall>k<length a. k < nat lo \<or> nat lo + length v \<le> k \<longrightarrow> r ! k = a ! k)"
proof (cases "v = []")
  case True
  then show ?thesis
    using lo by (simp add: slice_assign_def Let_def)
next
  case False
  with fit have le: "nat lo + length v \<le> length a" by simp
  have l: "slice_bound lo (length a) = nat lo"
    using lo le by (simp add: slice_bound_nonneg)
  have h: "slice_bound (lo + int (length v)) (length a) = nat lo + length v"
    using lo le by (simp add: slice_bound_nonneg nat_add_distrib)
  let ?r = "take (nat lo) a @ v @ drop (nat lo + length v) a"
  have eq: "slice_assign a lo (lo + int (length v)) v = Inr ?r"
    by (simp add: slice_assign_def Let_def l h)
  have len: "length ?r = length a" using le by simp
  have mid: "\<forall>j<length v. ?r ! (nat lo + j) = v ! j"
    using le by (simp add: nth_append)
  have out: "\<forall>k<length a. k < nat lo \<or> nat lo + length v \<le> k \<longrightarrow> ?r ! k = a ! k"
  proof (intro allI impI)
    fix k assume k: "k < length a" and o: "k < nat lo \<or> nat lo + length v \<le> k"
    from o show "?r ! k = a ! k"
    proof
      assume "k < nat lo"
      then show ?thesis using le by (simp add: nth_append)
    next
      assume ge: "nat lo + length v \<le> k"
      then have n: "\<not> k < nat lo" "\<not> k - nat lo < length v" by arith+
      have "?r ! k = drop (nat lo + length v) a ! (k - nat lo - length v)"
        using le n by (simp add: nth_append)
      also have "\<dots> = a ! k" using ge k by simp
      finally show ?thesis .
    qed
  qed
  show ?thesis using eq len mid out by blast
qed

lemma int_nat_diff: "0 \<le> a \<Longrightarrow> 0 \<le> b \<Longrightarrow> int (nat a - nat b) = max 0 (a - b)"
  by arith

lemma length_nd_mean:
  "length (nd_mean a axis) = (if axis = 0 then ncols a else nrows a)"
  by (simp add: nd_mean_def)

lemma length_imgProfile_of:
  assumes "axis = 0 \<or> axis = 1"
  shows "int (length (imgProfile_of img rowRange colRange axis)) =
     (let r = (if axis = 0 then colRange else rowRange);
          n = (if axis = 0 then int (ncols img) else int (nrows img))
      in max 0 (min (max 0 (snd r)) n - min (max 0 (fst r)) n))"
  using assms
  by (auto simp add: imgProfile_of_def length_nd_mean nd_slice_def Let_def slice_bound_nonneg
      int_nat_diff simp del: of_nat_diff)

lemma alignedPartialProfile_eq:
  assumes "axis = 0 \<or> axis = 1" "fst rowRange < snd rowRange" "fst colRange < snd colRange"
  shows "alignedPartialProfile img rowRange colRange axis =
     (let profileRange = (if axis = 0 then colRange else rowRange);
          imgProfile = imgProfile_of img rowRange colRange axis;
          offset = - min 0 (fst profileRange)
      in slice_assign (replicate (nat \<bar>snd profileRange - fst profileRange\<bar>) (Fin 0))
           offset (offset + int (length imgProfile)) imgProfile)"
  using assms by (simp add: alignedPartialProfile_def imgProfile_of_def Let_def)

lemma imgProfile_fits:
  assumes ax: "axis = 0 \<or> axis = 1" and lt: "fst r < snd r"
    and r: "r = (if axis = 0 then colRange else rowRange)"
  shows "imgProfile_of img rowRange colRange axis = []
       \<or> nat (- min 0 (fst r)) + length (imgProfile_of img rowRange colRange axis)
            \<le> nat \<bar>snd r - fst r\<bar>"
proof -
  let ?v = "imgProfile_of img rowRange colRange axis"
  let ?n = "if axis = 0 then int (ncols img) else int (nrows img)"
  have len: "int (length ?v) = max 0 (min (max 0 (snd r)) ?n - min (max 0 (fst r)) ?n)"
    using length_imgProfile_of[OF ax, of img rowRange colRange] r by (simp add: Let_def)
  have n0: "0 \<le> ?n" by simp
  have "length ?v = 0 \<or> - min 0 (fst r) + int (length ?v) \<le> \<bar>snd r - fst r\<bar>"
    using len lt n0 by linarith
  then show ?thesis
  proof
    assume "length ?v = 0" then show ?thesis by simp
  next
    assume "- min 0 (fst r) + int (length ?v) \<le> \<bar>snd r - fst r\<bar>"
    then have "nat (- min 0 (fst r)) + length ?v \<le> nat \<bar>snd r - fst r\<bar>" by linarith
    then show ?thesis by simp
  qed
qed

lemma map_shift_upt: "map (\<lambda>r. f (a + r)) [0..<b - a] = map f [a..<b]"
proof (cases "a \<le> b")
  case True
  have "map f [a..<b] = map f (map (\<lambda>i. i + a) [0..<b - a])"
    using True by (simp add: map_add_upt)
  then show ?thesis by (simp add: o_def add.commute)
next
  case False
  then show ?thesis by simp
qed

lemma imgProfile_of_nth:
  assumes ax: "axis = 0 \<or> axis = 1"
    and j: "j < length (imgProfile_of img rowRange colRange axis)"
    and r: "r = (if axis = 0 then colRange else rowRange)"
    and n: "n = (if axis = 0 then int (ncols img) else int (nrows img))"
  shows "imgProfile_of img rowRange colRange axis ! j =
           line_mean img rowRange colRange axis (nat (min (max 0 (fst r)) n) + j)"
proof -
  define rlo where "rlo = nat (min (max 0 (fst rowRange)) (int (nrows img)))"
  define rhi where "rhi = nat (min (max 0 (snd rowRange)) (int (nrows img)))"
  define clo where "clo = nat (min (max 0 (fst colRange)) (int (ncols img)))"
  define chi where "chi = nat (min (max 0 (snd colRange)) (int (ncols img)))"
  have sb: "\<And>v m. slice_bound (min (max 0 v) (int m)) m = nat (min (max 0 v) (int m))"
    by (simp add: slice_bound_nonneg)
  have ip: "imgProfile_of img rowRange colRange a =
      nd_mean \<lparr>nrows = rhi - rlo, ncols = chi - clo,
                px = (\<lambda>i j. px img (rlo + i) (clo + j))\<rparr> a" for a
    unfolding imgProfile_of_def nd_slice_def Let_def sb rlo_def rhi_def clo_def chi_def ..
  have lm0: "line_mean img rowRange colRange 0 x = mean_list (map (\<lambda>r. px img r x) [rlo..<rhi])"
    for x unfolding line_mean_def rlo_def rhi_def by simp
  have lm1: "line_mean img rowRange colRange 1 x = mean_list (map (\<lambda>c. px img x c) [clo..<chi])"
    for x unfolding line_mean_def clo_def chi_def by simp
  from ax show ?thesis
  proof
    assume a0: "axis = 0"
    have j': "j < chi - clo" using j unfolding ip a0 by (simp add: nd_mean_def)
    have st: "nat (min (max 0 (fst r)) n) = clo" unfolding r n a0 clo_def by simp
    show ?thesis
      unfolding st unfolding ip a0 lm0 using j'
      by (simp add: nd_mean_def map_shift_upt[of "\<lambda>r. px img r (clo + j)" rlo rhi])
  next
    assume a1: "axis = 1"
    have j': "j < rhi - rlo" using j unfolding ip a1 by (simp add: nd_mean_def)
    have st: "nat (min (max 0 (fst r)) n) = rlo" unfolding r n a1 rlo_def by simp
    show ?thesis
      unfolding st unfolding ip a1 lm1 using j'
      by (simp add: nd_mean_def map_shift_upt[of "\<lambda>c. px img (rlo + j) c" clo chi])
  qed
qed

text \<open>
  What \<open>_alignedPartialProfile\<close> does for every 2D image and all row and column ranges
  with \<open>min < max\<close>: the profile has the length of the requested range along the profile
  axis, \<open>abs (profileRange[1] - profileRange[0])\<close>, not that of the intersection with the
  image; \<open>imgProfile\<close> is found in it from the offset \<open>- min (0, profileRange[0])\<close> on; a
  sample whose coordinate along the profile axis is outside the image is zero, and any other
  sample is \<open>line_mean\<close>, which is \<open>NaN\<close> where the ROI misses the image along the reduction
  axis.
\<close>

lemma alignedPartialProfile_requested_length:
  assumes "axis = 0 \<or> axis = 1"
    and "fst rowRange < snd rowRange" and "fst colRange < snd colRange"
    and "profileRange = (if axis = 0 then colRange else rowRange)"
    and "imgProfile = imgProfile_of img rowRange colRange axis"
    and "offset = nat (- min 0 (fst profileRange))"
    and "extent = (if axis = 0 then int (ncols img) else int (nrows img))"
  shows "\<exists>profile. alignedPartialProfile img rowRange colRange axis = Inr profile
       \<and> length profile = nat \<bar>snd profileRange - fst profileRange\<bar>
       \<and> (imgProfile \<noteq> [] \<longrightarrow> offset + length imgProfile \<le> length profile)
       \<and> (\<forall>j<length imgProfile. profile ! (offset + j) = imgProfile ! j)
       \<and> (\<forall>k<length profile.
             k < offset \<or> offset + length imgProfile \<le> k \<longrightarrow> profile ! k = Fin 0)
       \<and> (\<forall>k<length profile. profile ! k =
             (if 0 \<le> fst profileRange + int k \<and> fst profileRange + int k < extent
              then line_mean img rowRange colRange axis (nat (fst profileRange + int k))
              else Fin 0))"
proof -
  let ?L = "nat \<bar>snd profileRange - fst profileRange\<bar>"
  let ?z = "replicate ?L (Fin 0)"
  let ?o = "- min 0 (fst profileRange)"
  have lt: "fst profileRange < snd profileRange" using assms(1-4) by auto
  have o0: "0 \<le> ?o" by simp
  have fit: "imgProfile = [] \<or> nat ?o + length imgProfile \<le> length ?z"
    using imgProfile_fits[OF assms(1) lt assms(4), of img] assms(5) by simp
  from slice_assign_fits[OF o0 fit]
  obtain r where r: "slice_assign ?z ?o (?o + int (length imgProfile)) imgProfile = Inr r"
    and len: "length r = length ?z"
    and mid: "\<forall>j<length imgProfile. r ! (nat ?o + j) = imgProfile ! j"
    and out: "\<forall>k<length ?z. k < nat ?o \<or> nat ?o + length imgProfile \<le> k \<longrightarrow> r ! k = ?z ! k"
    by blast
  have eq: "alignedPartialProfile img rowRange colRange axis = Inr r"
    using alignedPartialProfile_eq[OF assms(1-3), of img] assms(4,5) r
    by (simp add: Let_def)
  have len': "length r = ?L" using len by simp
  have fit': "imgProfile \<noteq> [] \<longrightarrow> offset + length imgProfile \<le> length r"
    using fit assms(6) len by auto
  have mid': "\<forall>j<length imgProfile. r ! (offset + j) = imgProfile ! j"
    using mid assms(6) by simp
  have out': "\<forall>k<length r. k < offset \<or> offset + length imgProfile \<le> k \<longrightarrow> r ! k = Fin 0"
    using out assms(6) len by auto
  have len_ip: "int (length imgProfile) =
      max 0 (min (max 0 (snd profileRange)) extent - min (max 0 (fst profileRange)) extent)"
    using length_imgProfile_of[OF assms(1), of img rowRange colRange] assms(4,5,7)
    by (simp add: Let_def)
  have off: "int offset = - min 0 (fst profileRange)" using assms(6) by simp
  have e0: "0 \<le> extent" using assms(7) by simp
  have pt: "r ! k =
             (if 0 \<le> fst profileRange + int k \<and> fst profileRange + int k < extent
              then line_mean img rowRange colRange axis (nat (fst profileRange + int k))
              else Fin 0)" if k: "k < length r" for k
  proof (cases "0 \<le> fst profileRange + int k \<and> fst profileRange + int k < extent")
    case True
    have kL: "int k < snd profileRange - fst profileRange" using k len' lt by linarith
    have ge: "offset \<le> k" using True off by linarith
    have j: "k - offset < length imgProfile" using True off len_ip kL ge by linarith
    have "r ! k = r ! (offset + (k - offset))" using ge by simp
    also have "\<dots> = imgProfile ! (k - offset)" using mid' j by blast
    also have "\<dots> = line_mean img rowRange colRange axis
                          (nat (min (max 0 (fst profileRange)) extent) + (k - offset))"
      using imgProfile_of_nth[OF assms(1) _ assms(4) assms(7), where j = "k - offset"] j assms(5)
      by simp
    also have "nat (min (max 0 (fst profileRange)) extent) + (k - offset) =
               nat (fst profileRange + int k)"
      using True off ge by linarith
    finally show ?thesis using True by simp
  next
    case False
    have "k < offset \<or> offset + length imgProfile \<le> k"
      using False off len_ip e0 by linarith
    then have "r ! k = Fin 0" using out' k by blast
    then show ?thesis using False by auto
  qed
  show ?thesis using eq len' fit' mid' out' pt by blast
qed

lemma alignedPartialProfile_requested_length_example:
  "((0::nat) = 0 \<or> (0::nat) = 1)
   \<and> fst (0::int, 2::int) < snd (0::int, 2::int)
   \<and> fst (- 1::int, 3::int) < snd (- 1::int, 3::int)
   \<and> (- 1::int, 3::int) = (if (0::nat) = 0 then (- 1, 3) else (0, 2))
   \<and> [Fin 2, Fin 3] = imgProfile_of img2x2 (0, 2) (- 1, 3) 0
   \<and> 1 = nat (- min 0 (fst (- 1::int, 3::int)))
   \<and> 2 = (if (0::nat) = 0 then int (ncols img2x2) else int (nrows img2x2))
   \<and> alignedPartialProfile img2x2 (0, 2) (- 1, 3) 0 = Inr [Fin 0, Fin 2, Fin 3, Fin 0]
   \<and> (\<exists>profile. alignedPartialProfile img2x2 (0, 2) (- 1, 3) 0 = Inr profile
       \<and> length profile = nat \<bar>snd (- 1::int, 3::int) - fst (- 1::int, 3::int)\<bar>
       \<and> ([Fin 2, Fin 3] \<noteq> [] \<longrightarrow> 1 + length [Fin 2, Fin 3] \<le> length profile)
       \<and> (\<forall>j<length [Fin 2, Fin 3]. profile ! (1 + j) = [Fin 2, Fin 3] ! j)
       \<and> (\<forall>k<length profile.
             k < 1 \<or> 1 + length [Fin 2, Fin 3] \<le> k \<longrightarrow> profile ! k = Fin 0)
       \<and> (\<forall>k<length profile. profile ! k =
             (if 0 \<le> fst (- 1::int, 3::int) + int k \<and> fst (- 1::int, 3::int) + int k < 2
              then line_mean img2x2 (0, 2) (- 1, 3) 0 (nat (fst (- 1::int, 3::int) + int k))
              else Fin 0)))"
proof -
  have a: "(0::nat) = 0 \<or> (0::nat) = 1" by simp
  have b: "fst (0::int, 2::int) < snd (0::int, 2::int)" by simp
  have c: "fst (- 1::int, 3::int) < snd (- 1::int, 3::int)" by simp
  have d: "(- 1::int, 3::int) = (if (0::nat) = 0 then (- 1, 3) else (0, 2))" by simp
  have e: "[Fin 2, Fin 3] = imgProfile_of img2x2 (0, 2) (- 1, 3) 0"
    by (simp add: imgProfile_of_def nd_mean_def nd_slice_def slice_bound_def Let_def
        mean_list_def img2x2_def upt_conv_Cons)
  have f: "1 = nat (- min 0 (fst (- 1::int, 3::int)))" by simp
  have g: "2 = (if (0::nat) = 0 then int (ncols img2x2) else int (nrows img2x2))"
    by (simp add: img2x2_def)
  have "alignedPartialProfile img2x2 (0, 2) (- 1, 3) 0 =
          slice_assign (replicate 4 (Fin 0)) 1 3 [Fin 2, Fin 3]"
    using alignedPartialProfile_eq[OF a b c, of img2x2] by (simp add: Let_def e[symmetric])
  also have "\<dots> = Inr [Fin 0, Fin 2, Fin 3, Fin 0]"
    by (simp add: slice_assign_def slice_bound_def Let_def)
  finally have h: "alignedPartialProfile img2x2 (0, 2) (- 1, 3) 0 =
      Inr [Fin 0, Fin 2, Fin 3, Fin 0]" .
  from alignedPartialProfile_requested_length[OF a b c d e f g]
  show ?thesis using a b c d e f g h by blast
qed

text \<open>
  C4 does not hold of the code. On the image \<open>[[1, 2], [3, 4]]\<close>, the ROI of rows \<open>[5, 6[\<close>
  and columns \<open>[0, 2[\<close> lies entirely outside the image, below its last row. With
  \<open>axis = 0\<close> the profile has the requested length 2, but it is not filled with zeros: the
  intersection has no row, its mean is numpy's mean of an empty slice, and the profile is
  \<open>[NaN, NaN]\<close>. A ROI that is outside the image along the profile axis (rows \<open>[0, 2[\<close>,
  columns \<open>[5, 7[\<close>) does give \<open>[0, 0]\<close>. \<open>updateProfile\<close> reaches the first case with a
  free line of width 1 drawn from \<open>(0, 5)\<close> to \<open>(1, 5)\<close>.
\<close>

theorem alignedPartialProfile_outside_rows_not_zero:
  "alignedPartialProfile img2x2 (5, 6) (0, 2) 0 = Inr [NaN, NaN]
   \<and> [NaN, NaN] \<noteq> [Fin 0, Fin 0]
   \<and> alignedPartialProfile img2x2 (0, 2) (5, 7) 0 = Inr [Fin 0, Fin 0]
   \<and> updateProfile (Some ((0, 5), (1, 5), D)) (Some active2x2) 1 =
        Inr (Some (Curve [NaN, NaN] ([0, 2, 2, 0], [5, 5, 6, 6])))"
proof -
  have ax: "(0::nat) = 0 \<or> (0::nat) = 1" by simp
  have r1: "fst (5::int, 6::int) < snd (5::int, 6::int)" by simp
  have c1: "fst (0::int, 2::int) < snd (0::int, 2::int)" by simp
  have c2: "fst (5::int, 7::int) < snd (5::int, 7::int)" by simp
  have i1: "imgProfile_of img2x2 (5, 6) (0, 2) 0 = [NaN, NaN]"
    by (simp add: imgProfile_of_def nd_mean_def nd_slice_def slice_bound_def Let_def
        mean_list_def img2x2_def upt_conv_Cons)
  have i2: "imgProfile_of img2x2 (0, 2) (5, 7) 0 = []"
    by (simp add: imgProfile_of_def nd_mean_def nd_slice_def slice_bound_def Let_def
        mean_list_def img2x2_def)
  have "alignedPartialProfile img2x2 (5, 6) (0, 2) 0 =
          slice_assign (replicate 2 (Fin 0)) 0 2 [NaN, NaN]"
    using alignedPartialProfile_eq[OF ax r1 c1, of img2x2] by (simp add: Let_def i1)
  also have "\<dots> = Inr [NaN, NaN]"
    by (simp add: slice_assign_def slice_bound_def Let_def)
  finally have a: "alignedPartialProfile img2x2 (5, 6) (0, 2) 0 = Inr [NaN, NaN]" .
  have "alignedPartialProfile img2x2 (0, 2) (5, 7) 0 =
          slice_assign (replicate 2 (Fin 0)) 0 0 []"
    using alignedPartialProfile_eq[OF ax c1 c2, of img2x2] by (simp add: Let_def i2)
  also have "\<dots> = Inr [Fin 0, Fin 0]"
    by (simp add: slice_assign_def slice_bound_def Let_def numeral_2_eq_2)
  finally have b: "alignedPartialProfile img2x2 (0, 2) (5, 7) 0 = Inr [Fin 0, Fin 0]" .
  have c: "updateProfile (Some ((0, 5), (1, 5), D)) (Some active2x2) 1 =
        Inr (Some (Curve [NaN, NaN] ([0, 2, 2, 0], [5, 5, 6, 6])))"
    by (simp add: updateProfile_def freeLineProfile_def active2x2_def Let_def py_int_def
        centredRange_def a)
  show ?thesis using a b c by simp
qed

lemma alignedPartialProfile_returns:
  assumes "axis = 0 \<or> axis = 1"
    and "fst rowRange < snd rowRange" and "fst colRange < snd colRange"
    and "profileRange = (if axis = 0 then colRange else rowRange)"
  shows "\<exists>profile. alignedPartialProfile img rowRange colRange axis = Inr profile
       \<and> length profile = nat \<bar>snd profileRange - fst profileRange\<bar>"
proof -
  let ?v = "imgProfile_of img rowRange colRange axis"
  let ?z = "replicate (nat \<bar>snd profileRange - fst profileRange\<bar>) (Fin 0 :: sample)"
  let ?o = "- min 0 (fst profileRange)"
  have lt: "fst profileRange < snd profileRange" using assms by auto
  have o0: "0 \<le> ?o" by simp
  have fit: "?v = [] \<or> nat ?o + length ?v \<le> length ?z"
    using imgProfile_fits[OF assms(1) lt assms(4), of img] by simp
  from slice_assign_fits[OF o0 fit]
  obtain r where r: "slice_assign ?z ?o (?o + int (length ?v)) ?v = Inr r"
    and len: "length r = length ?z"
    by blast
  have "alignedPartialProfile img rowRange colRange axis = Inr r"
    using alignedPartialProfile_eq[OF assms(1-3), of img] assms(4) r
    by (simp add: Let_def)
  then show ?thesis using len by simp
qed

lemma py_int_half: "py_int (real_of_int m + 1 / 2) = (if 0 \<le> m then m else m + 1)"
proof (cases "0 \<le> m")
  case True
  then have "\<lfloor>real_of_int m + 1 / 2\<rfloor> = m" by linarith
  then show ?thesis using True by (simp add: py_int_def)
next
  case False
  then have "\<lceil>real_of_int m + 1 / 2\<rceil> = m + 1" by linarith
  moreover have "\<not> 0 \<le> real_of_int m + 1 / 2" using False by linarith
  ultimately show ?thesis using False by (simp add: py_int_def)
qed

lemma centredRange_lt:
  assumes "1 \<le> roiWidth"
  shows "fst (centredRange p roiWidth) < snd (centredRange p roiWidth)"
proof (cases "even roiWidth")
  case True
  then obtain k where k: "roiWidth = 2 * k" by (auto elim: evenE)
  have k1: "1 \<le> k" using assms k by simp
  have a: "real_of_int p + 0.5 - 0.5 * real_of_int roiWidth = real_of_int (p - k) + 1 / 2"
    by (simp add: k)
  have b: "real_of_int p + 0.5 + 0.5 * real_of_int roiWidth = real_of_int (p + k) + 1 / 2"
    by (simp add: k)
  show ?thesis
    unfolding centredRange_def fst_conv snd_conv a b py_int_half using k1 by simp
next
  case False
  then obtain k where k: "roiWidth = 2 * k + 1" by (auto elim: oddE)
  have k0: "0 \<le> k" using assms k by simp
  have a: "real_of_int p + 0.5 - 0.5 * real_of_int roiWidth = real_of_int (p - k)"
    by (simp add: k field_simps)
  have b: "real_of_int p + 0.5 + 0.5 * real_of_int roiWidth = real_of_int (p + k + 1)"
    by (simp add: k field_simps)
  show ?thesis
    unfolding centredRange_def fst_conv snd_conv a b py_int_of_int using k0 by simp
qed

lemma freeLineProfile_point:
  assumes "fst scale \<noteq> 0" and "snd scale \<noteq> 0" and "1 \<le> roiWidth"
  shows "\<exists>profile area. freeLineProfile img origin scale roiWidth p p = Inr (Curve profile area)
           \<and> length profile = 1"
proof -
  let ?r = "py_int ((snd p - snd origin) / snd scale)"
  let ?c = "py_int ((fst p - fst origin) / fst scale)"
  have a: "(0::nat) = 0 \<or> (0::nat) = 1" by simp
  have c: "fst (?c, ?c + 1) < snd (?c, ?c + 1)" by simp
  from alignedPartialProfile_returns[OF a centredRange_lt[OF assms(3)] c, of _ ?r img]
  obtain profile where
    "alignedPartialProfile img (centredRange ?r roiWidth) (?c, ?c + 1) 0 = Inr profile"
    and "length profile = 1"
    by auto
  then show ?thesis
    using assms(1,2) by (simp add: freeLineProfile_def Let_def)
qed

text \<open>
  C8, as stated, fails for a line of length zero. With the image \<open>[[7]]\<close> active, origin
  \<open>(0, 0)\<close>, scale \<open>(1, 1)\<close> and a width of 1, a free line from \<open>(0, 0)\<close> to \<open>(0, 0)\<close> is not
  rejected: \<open>updateProfile\<close> draws the profile \<open>[7]\<close> of one sample.
\<close>

theorem updateProfile_zero_length_line_drawn:
  "updateProfile (Some ((0, 0), (0, 0), D)) (Some active1x1) 1 =
     Inr (Some (Curve [Fin 7] ([0, 1, 1, 0], [0, 0, 1, 1])))"
  by (simp add: updateProfile_def freeLineProfile_def active1x1_def img1x1_def Let_def
      py_int_def centredRange_def alignedPartialProfile_def nd_mean_def nd_slice_def
      slice_bound_def mean_list_def slice_assign_def)

text \<open>
  C8, amended. In \<open>_alignedPartialProfile\<close>, a row range or a column range with
  \<open>min \<ge> max\<close> fails an assertion (the InvalidRange of the specification), whatever the
  image and the axis, and no profile is computed. A line of length zero is not rejected:
  for scales that are not 0, \<open>updateProfile\<close> takes a free line whose two end points are
  equal as a line aligned with the rows that covers one pixel, and draws a profile of one
  sample.
\<close>

theorem degenerate_range_rejected_point_line_drawn:
  "(\<not> fst rowRange < snd rowRange \<or> \<not> fst colRange < snd colRange \<longrightarrow>
      alignedPartialProfile img rowRange colRange axis = Inl AssertionError)
   \<and> (fst (imgScale im) \<noteq> 0 \<and> snd (imgScale im) \<noteq> 0 \<longrightarrow>
      (\<exists>profile area. updateProfile (Some (p, p, D)) (Some im) v =
          Inr (Some (Curve profile area)) \<and> length profile = 1))"
proof (intro conjI impI)
  assume "\<not> fst rowRange < snd rowRange \<or> \<not> fst colRange < snd colRange"
  then show "alignedPartialProfile img rowRange colRange axis = Inl AssertionError"
    by (auto simp add: alignedPartialProfile_def)
next
  assume s: "fst (imgScale im) \<noteq> 0 \<and> snd (imgScale im) \<noteq> 0"
  have w: "1 \<le> max 1 v" by simp
  from freeLineProfile_point[OF conjunct1[OF s] conjunct2[OF s] w, of "imgData im" "imgOrigin im" p]
  show "\<exists>profile area. updateProfile (Some (p, p, D)) (Some im) v =
          Inr (Some (Curve profile area)) \<and> length profile = 1"
    by (auto simp add: updateProfile_def Let_def)
qed

theorem degenerate_range_rejected_point_line_drawn_witness:
  "\<not> fst (2::int, 2::int) < snd (2::int, 2::int)
   \<and> alignedPartialProfile img1x1 (2, 2) (0, 1) 0 = Inl AssertionError
   \<and> (fst (imgScale active1x1) \<noteq> 0 \<and> snd (imgScale active1x1) \<noteq> 0)
   \<and> (\<exists>profile area. updateProfile (Some ((0, 0), (0, 0), D)) (Some active1x1) 1 =
          Inr (Some (Curve profile area)) \<and> length profile = 1)"
proof -
  have a: "\<not> fst (2::int, 2::int) < snd (2::int, 2::int)" by simp
  have b: "fst (imgScale active1x1) \<noteq> 0 \<and> snd (imgScale active1x1) \<noteq> 0"
    by (simp add: active1x1_def)
  note t = degenerate_range_rejected_point_line_drawn
    [of "(2, 2)" "(0, 1)" img1x1 0 active1x1 "(0, 0)" 1]
  from t a have c: "alignedPartialProfile img1x1 (2, 2) (0, 1) 0 = Inl AssertionError"
    by blast
  from t b have d: "\<exists>profile area. updateProfile (Some ((0, 0), (0, 0), D)) (Some active1x1) 1 =
          Inr (Some (Curve profile area)) \<and> length profile = 1"
    by blast
  show ?thesis using a b c d by blast
qed

section \<open>Properties of the mesh generation\<close>

lemma length_sector [simp]:
  "length (fst (sector radius height a0 a1 flatFaces)) = 12"
  "length (snd (sector radius height a0 a1 flatFaces)) = 12"
  by (simp_all add: sector_def Let_def)

lemma length_concat_replicate: "length (concat (replicate p xs)) = p * length xs"
  by (induction p) simp_all

lemma length_concat_const:
  "\<forall>x\<in>set xs. length (f x) = k \<Longrightarrow> length (concat (map f xs)) = length xs * k"
  by (induction xs) simp_all

lemma CylindricalVolume_setData_mesh:
  assumes "position \<noteq> []" and "angles \<noteq> []"
  shows "\<exists>m. CylindricalVolume_setData self (Some position) radius height angles color flatFaces
              = Inr (self\<lparr>children := [m], meshRef := MeshObj m\<rparr>)
           \<and> attrColor m = color \<and> drawMode m = ''triangles''
           \<and> length (attrPosition m) = length position * (length angles - 1) * 12
           \<and> (\<exists>normals. attrNormal m = Some normals
                \<and> length normals = length position * (length angles - 1) * 12)"
proof -
  let ?n = "length angles - 1"
  let ?sectors = "map (\<lambda>i. sector radius height (angles ! i) (angles ! (i + 1)) flatFaces)
                    [0..<?n]"
  have "\<forall>x\<in>set ?sectors. length (fst x) = 12" by auto
  from length_concat_const[OF this]
  have v: "length (concat (map fst ?sectors)) = ?n * 12" by simp
  have "\<forall>x\<in>set ?sectors. length (snd x) = 12" by auto
  from length_concat_const[OF this]
  have nl: "length (concat (map snd ?sectors)) = ?n * 12" by simp
  have "\<forall>x\<in>set position. length (replicate (?n * 12) x) = ?n * 12" by simp
  from length_concat_const[OF this]
  have t: "length (concat (map (replicate (?n * 12)) position)) = length position * (?n * 12)"
    by simp
  define vertices where
    "vertices = map2 vadd (concat (replicate (length position) (concat (map fst ?sectors))))
                  (concat (map (replicate (?n * 12)) position))"
  define normals where
    "normals = concat (replicate (length position) (concat (map snd ?sectors)))"
  define m where
    "m = \<lparr>attrPosition = vertices, attrColor = color, attrNormal = Some normals,
             drawMode = ''triangles''\<rparr>"
  have eq: "CylindricalVolume_setData self (Some position) radius height angles color flatFaces
              = Inr (self\<lparr>children := [m], meshRef := MeshObj m\<rparr>)"
    using assms
    by (simp add: CylindricalVolume_setData_def Let_def Mesh3D_def drawModes_def
        m_def vertices_def normals_def)
  have lv: "length vertices = length position * (length angles - 1) * 12"
    unfolding vertices_def length_map length_zip length_concat_replicate v t by simp
  have ln: "length normals = length position * (length angles - 1) * 12"
    unfolding normals_def length_concat_replicate nl by simp
  have "attrColor m = color" "drawMode m = ''triangles''" "attrPosition m = vertices"
    "attrNormal m = Some normals"
    by (simp_all add: m_def)
  then show ?thesis using eq lv ln by auto
qed

lemma length_linspace:
  "0 \<le> num \<Longrightarrow> \<exists>xs. linspace start stop num = Inr xs \<and> length xs = nat num"
  by (simp add: linspace_def Let_def)

text \<open>
  C5. For every non-empty array of positions and every sequence of at least 2 angles, the
  vertex and normal buffers of the mesh that \<open>_setData\<close> builds have exactly
  \<open>len(positions) * (len(angles) - 1) * 12\<close> rows, of 3 components each. In particular a
  cylinder of \<open>nbFaces \<ge> 1\<close> faces, whose angles span \<open>2 * pi\<close> in \<open>nbFaces\<close> equal steps, has
  \<open>nbFaces * 12\<close> vertices for each position.
\<close>

theorem setData_buffer_rows:
  assumes "position \<noteq> []" and "2 \<le> length angles" and "1 \<le> nbFaces"
  shows "(\<exists>m normals.
            CylindricalVolume_setData self (Some position) radius height angles color flatFaces
              = Inr (self\<lparr>children := [m], meshRef := MeshObj m\<rparr>)
          \<and> length (attrPosition m) = length position * (length angles - 1) * 12
          \<and> attrNormal m = Some normals
          \<and> length normals = length position * (length angles - 1) * 12)
       \<and> (\<exists>m normals.
            Cylinder_setData self position radius height color nbFaces
              = Inr (self\<lparr>children := [m], meshRef := MeshObj m\<rparr>)
          \<and> length (attrPosition m) = length position * nat nbFaces * 12
          \<and> attrNormal m = Some normals
          \<and> length normals = length position * nat nbFaces * 12)"
proof
  have a: "angles \<noteq> []" using assms(2) by auto
  from CylindricalVolume_setData_mesh[OF assms(1) a]
  show "\<exists>m normals.
            CylindricalVolume_setData self (Some position) radius height angles color flatFaces
              = Inr (self\<lparr>children := [m], meshRef := MeshObj m\<rparr>)
          \<and> length (attrPosition m) = length position * (length angles - 1) * 12
          \<and> attrNormal m = Some normals
          \<and> length normals = length position * (length angles - 1) * 12"
    by blast
next
  have "0 \<le> nbFaces + 1" using assms(3) by simp
  from length_linspace[OF this, of 0 "2 * pi"]
  obtain xs where xs: "linspace 0 (2 * pi) (nbFaces + 1) = Inr xs"
    and len: "length xs = nat (nbFaces + 1)"
    by blast
  have ne: "xs \<noteq> []" using len assms(3) by auto
  have l1: "length xs - 1 = nat nbFaces" using len assms(3) by simp
  from CylindricalVolume_setData_mesh[OF assms(1) ne, of self radius height color False]
  show "\<exists>m normals.
            Cylinder_setData self position radius height color nbFaces
              = Inr (self\<lparr>children := [m], meshRef := MeshObj m\<rparr>)
          \<and> length (attrPosition m) = length position * nat nbFaces * 12
          \<and> attrNormal m = Some normals
          \<and> length normals = length position * nat nbFaces * 12"
    unfolding Cylinder_setData_def xs l1 by auto
qed

theorem setData_buffer_rows_witness:
  "[(0, 0, 0) :: vec3] \<noteq> [] \<and> 2 \<le> length [0, pi / 2 :: real] \<and> (1::int) \<le> 4
   \<and> (\<exists>m normals.
          CylindricalVolume_setData newItem (Some [(0, 0, 0)]) 1 2 [0, pi / 2] [1, 1, 1] True
            = Inr (newItem\<lparr>children := [m], meshRef := MeshObj m\<rparr>)
        \<and> length (attrPosition m) = length [(0, 0, 0) :: vec3] * (length [0, pi / 2 :: real] - 1) * 12
        \<and> attrNormal m = Some normals
        \<and> length normals = length [(0, 0, 0) :: vec3] * (length [0, pi / 2 :: real] - 1) * 12)
   \<and> (\<exists>m normals.
          Cylinder_setData newItem [(0, 0, 0)] 1 2 [1, 1, 1] 4
            = Inr (newItem\<lparr>children := [m], meshRef := MeshObj m\<rparr>)
        \<and> length (attrPosition m) = length [(0, 0, 0) :: vec3] * nat 4 * 12
        \<and> attrNormal m = Some normals
        \<and> length normals = length [(0, 0, 0) :: vec3] * nat 4 * 12)"
proof -
  have a: "[(0, 0, 0) :: vec3] \<noteq> []" by simp
  have b: "2 \<le> length [0, pi / 2 :: real]" by simp
  have c: "(1::int) \<le> 4" by simp
  from setData_buffer_rows[OF a b c, of newItem 1 2 "[1, 1, 1]" True]
  show ?thesis using a b c by blast
qed

lemma map2_replicate:
  "length xs = n \<Longrightarrow> map2 f xs (replicate n c) = map (\<lambda>x. f x c) xs"
  by (induction xs arbitrary: n) auto

lemma sector_flat_normal_10:
  "snd (sector radius height a0 a1 True) ! 10 = (0, 0, 0)"
  by (simp add: sector_def Let_def)

text \<open>
  C2 does not hold of the code. With flat faces every vertex of a sector should carry the
  face normal of its triangle, but the normal at index 10 (vertex \<open>c5\<close> of the top triangle
  \<open>c4, c5, c6\<close>) is computed as \<open>cross (c6 - c5) (c5 - c5)\<close>, the zero vector, which has
  no direction. For one position at the origin, radius 1, height 2 and the angles
  \<open>[0, pi / 2]\<close>, the two other vertices of the top triangle get the face normal
  \<open>(0, 0, 1)\<close> and \<open>c5\<close> gets \<open>(0, 0, 0)\<close>.
\<close>

theorem setData_flat_normal_of_c5_is_zero:
  "CylindricalVolume_setData newItem (Some [(0, 0, 0)]) 1 2 [0, pi / 2] [1, 1, 1] True =
     Inr \<lparr>children =
            [\<lparr>attrPosition =
                 [(0, 0, - 1), (0, 1, - 1), (1, 0, - 1),
                  (1, 0, - 1), (0, 1, - 1), (1, 0, 1),
                  (0, 1, - 1), (0, 1, 1), (1, 0, 1),
                  (1, 0, 1), (0, 1, 1), (0, 0, 1)],
               attrColor = [1, 1, 1],
               attrNormal = Some
                 [(0, 0, - 1), (0, 0, - 1), (0, 0, - 1),
                  (2, 2, 0), (2, 2, 0), (2, 2, 0),
                  (2, 2, 0), (2, 2, 0), (2, 2, 0),
                  (0, 0, 1), (0, 0, 0), (0, 0, 1)],
               drawMode = ''triangles''\<rparr>],
          meshRef = MeshObj
             \<lparr>attrPosition =
                 [(0, 0, - 1), (0, 1, - 1), (1, 0, - 1),
                  (1, 0, - 1), (0, 1, - 1), (1, 0, 1),
                  (0, 1, - 1), (0, 1, 1), (1, 0, 1),
                  (1, 0, 1), (0, 1, 1), (0, 0, 1)],
               attrColor = [1, 1, 1],
               attrNormal = Some
                 [(0, 0, - 1), (0, 0, - 1), (0, 0, - 1),
                  (2, 2, 0), (2, 2, 0), (2, 2, 0),
                  (2, 2, 0), (2, 2, 0), (2, 2, 0),
                  (0, 0, 1), (0, 0, 0), (0, 0, 1)],
               drawMode = ''triangles''\<rparr>\<rparr>"
proof -
  have n: "length [0, pi / 2 :: real] - 1 = 1" by simp
  have u: "[0..<1] = [0]" by simp
  show ?thesis
    unfolding CylindricalVolume_setData_def Let_def n u
    by (simp add: Mesh3D_def drawModes_def newItem_def map2_replicate sector_def Let_def)
qed

text \<open>
  C6 does not hold of the code. For positions that are \<open>None\<close> or empty, \<open>Mesh.setData\<close> and
  \<open>_CylindricalVolume._setData\<close> attach no child and create no mesh object, but they store
  the integer 0 in \<open>_mesh\<close>, not \<open>None\<close>: the getters of \<open>Mesh\<close>, which test
  \<open>self._mesh is None\<close> to return the empty buffers, then fail with an AttributeError.
\<close>

theorem setData_empty_stores_zero:
  "Mesh_setData newItem None [1, 1, 1] None ''triangles'' =
     Inr \<lparr>children = [], meshRef = PyInt 0\<rparr>
   \<and> Mesh_setData newItem (Some []) [1, 1, 1] None ''triangles'' =
     Inr \<lparr>children = [], meshRef = PyInt 0\<rparr>
   \<and> CylindricalVolume_setData newItem None 1 2 [0, pi / 2] [1, 1, 1] True =
     Inr \<lparr>children = [], meshRef = PyInt 0\<rparr>
   \<and> CylindricalVolume_setData newItem (Some []) 1 2 [0, pi / 2] [1, 1, 1] True =
     Inr \<lparr>children = [], meshRef = PyInt 0\<rparr>
   \<and> PyInt 0 \<noteq> PyNone
   \<and> getPositionData \<lparr>children = [], meshRef = PyInt 0\<rparr> = Inl AttributeError
   \<and> getColorData \<lparr>children = [], meshRef = PyInt 0\<rparr> = Inl AttributeError
   \<and> getNormalData \<lparr>children = [], meshRef = PyInt 0\<rparr> = Inl AttributeError
   \<and> getPositionData newItem = Inr []"
  by (simp add: Mesh_setData_def CylindricalVolume_setData_def newItem_def Let_def
      getPositionData_def getColorData_def getNormalData_def)

lemma sqrt8: "sqrt 8 = 2 * sqrt 2"
proof -
  have "sqrt 8 = sqrt (4 * 2)" by simp
  also have "\<dots> = sqrt 4 * sqrt 2" by (rule real_sqrt_mult)
  also have "sqrt 4 = 2" using real_sqrt_abs[of 2] by simp
  finally show ?thesis .
qed

lemma Box_angles_cube:
  "Box_angles (2, 2, 2) = Inr [- (pi / 4), pi / 4, 3 * pi / 4, 5 * pi / 4, 7 * pi / 4]"
  by (simp add: Box_angles_def Let_def sqrt8 arcsin_one_over_sqrt_2)

lemma trig_quarters:
  "cos (- (pi / 4)) = sqrt 2 / 2" "sin (- (pi / 4)) = - (sqrt 2 / 2)"
  "cos (pi / 4) = sqrt 2 / 2" "sin (pi / 4) = sqrt 2 / 2"
  "cos (3 * pi / 4) = - (sqrt 2 / 2)" "sin (3 * pi / 4) = sqrt 2 / 2"
  "cos (5 * pi / 4) = - (sqrt 2 / 2)" "sin (5 * pi / 4) = - (sqrt 2 / 2)"
  "cos (7 * pi / 4) = sqrt 2 / 2" "sin (7 * pi / 4) = - (sqrt 2 / 2)"
proof -
  show "cos (- (pi / 4)) = sqrt 2 / 2" "sin (- (pi / 4)) = - (sqrt 2 / 2)"
    "cos (pi / 4) = sqrt 2 / 2" "sin (pi / 4) = sqrt 2 / 2"
    by (simp_all add: cos_45 sin_45)
  have a: "pi - pi / 4 = 3 * pi / 4" by simp
  show "cos (3 * pi / 4) = - (sqrt 2 / 2)"
    using cos_pi_minus[of "pi / 4"] unfolding a by (simp only: cos_45)
  show "sin (3 * pi / 4) = sqrt 2 / 2"
    using sin_pi_minus[of "pi / 4"] unfolding a by (simp only: sin_45)
  have b: "pi / 4 + pi = 5 * pi / 4" by simp
  show "cos (5 * pi / 4) = - (sqrt 2 / 2)"
    using cos_periodic_pi[of "pi / 4"] unfolding b by (simp only: cos_45)
  show "sin (5 * pi / 4) = - (sqrt 2 / 2)"
    using sin_periodic_pi[of "pi / 4"] unfolding b by (simp only: sin_45)
  have c: "2 * pi - pi / 4 = 7 * pi / 4" by simp
  show "cos (7 * pi / 4) = sqrt 2 / 2"
    using cos_2pi_minus[of "pi / 4"] unfolding c by (simp only: cos_45)
  show "sin (7 * pi / 4) = - (sqrt 2 / 2)"
    using sin_2pi_minus[of "pi / 4"] unfolding c by (simp only: sin_45)
qed

lemma rim_unit:
  "sqrt 2 * (sqrt 2 / 2) = 1" "sqrt 2 * - (sqrt 2 / 2) = - 1"
  by simp_all

lemma cube_radius: "sqrt (2\<^sup>2 + 2\<^sup>2) / 2 = sqrt 2"
  by (simp add: sqrt8)

lemma cube_sectors:
  "map (\<lambda>i. sector (sqrt 2) 2 ([- (pi / 4), pi / 4, 3 * pi / 4, 5 * pi / 4, 7 * pi / 4] ! i)
                ([- (pi / 4), pi / 4, 3 * pi / 4, 5 * pi / 4, 7 * pi / 4] ! (i + 1)) True)
       [0..<4] =
     [sector (sqrt 2) 2 (- (pi / 4)) (pi / 4) True,
      sector (sqrt 2) 2 (pi / 4) (3 * pi / 4) True,
      sector (sqrt 2) 2 (3 * pi / 4) (5 * pi / 4) True,
      sector (sqrt 2) 2 (5 * pi / 4) (7 * pi / 4) True]"
  by (simp add: upt_conv_Cons)

lemma cube_sector_vertices:
  "fst (sector (sqrt 2) 2 (- (pi / 4)) (pi / 4) True) =
     [(0, 0, - 1), (1, 1, - 1), (1, - 1, - 1),
      (1, - 1, - 1), (1, 1, - 1), (1, - 1, 1),
      (1, 1, - 1), (1, 1, 1), (1, - 1, 1),
      (1, - 1, 1), (1, 1, 1), (0, 0, 1)]"
  "fst (sector (sqrt 2) 2 (pi / 4) (3 * pi / 4) True) =
     [(0, 0, - 1), (- 1, 1, - 1), (1, 1, - 1),
      (1, 1, - 1), (- 1, 1, - 1), (1, 1, 1),
      (- 1, 1, - 1), (- 1, 1, 1), (1, 1, 1),
      (1, 1, 1), (- 1, 1, 1), (0, 0, 1)]"
  "fst (sector (sqrt 2) 2 (3 * pi / 4) (5 * pi / 4) True) =
     [(0, 0, - 1), (- 1, - 1, - 1), (- 1, 1, - 1),
      (- 1, 1, - 1), (- 1, - 1, - 1), (- 1, 1, 1),
      (- 1, - 1, - 1), (- 1, - 1, 1), (- 1, 1, 1),
      (- 1, 1, 1), (- 1, - 1, 1), (0, 0, 1)]"
  "fst (sector (sqrt 2) 2 (5 * pi / 4) (7 * pi / 4) True) =
     [(0, 0, - 1), (1, - 1, - 1), (- 1, - 1, - 1),
      (- 1, - 1, - 1), (1, - 1, - 1), (- 1, - 1, 1),
      (1, - 1, - 1), (1, - 1, 1), (- 1, - 1, 1),
      (- 1, - 1, 1), (1, - 1, 1), (0, 0, 1)]"
  unfolding sector_def Let_def fst_conv trig_quarters rim_unit by simp_all

lemma cube_mesh:
  "CylindricalVolume_setData self (Some [(cx, cy, cz)]) (sqrt 2) 2
     [- (pi / 4), pi / 4, 3 * pi / 4, 5 * pi / 4, 7 * pi / 4] color True =
   Inr (self\<lparr>children :=
              [\<lparr>attrPosition = map (\<lambda>v. vadd v (cx, cy, cz))
                   (concat (map fst
                     [sector (sqrt 2) 2 (- (pi / 4)) (pi / 4) True,
                      sector (sqrt 2) 2 (pi / 4) (3 * pi / 4) True,
                      sector (sqrt 2) 2 (3 * pi / 4) (5 * pi / 4) True,
                      sector (sqrt 2) 2 (5 * pi / 4) (7 * pi / 4) True])),
                 attrColor = color,
                 attrNormal = Some (concat (map snd
                     [sector (sqrt 2) 2 (- (pi / 4)) (pi / 4) True,
                      sector (sqrt 2) 2 (pi / 4) (3 * pi / 4) True,
                      sector (sqrt 2) 2 (3 * pi / 4) (5 * pi / 4) True,
                      sector (sqrt 2) 2 (5 * pi / 4) (7 * pi / 4) True])),
                 drawMode = ''triangles''\<rparr>],
            meshRef := MeshObj
               \<lparr>attrPosition = map (\<lambda>v. vadd v (cx, cy, cz))
                   (concat (map fst
                     [sector (sqrt 2) 2 (- (pi / 4)) (pi / 4) True,
                      sector (sqrt 2) 2 (pi / 4) (3 * pi / 4) True,
                      sector (sqrt 2) 2 (3 * pi / 4) (5 * pi / 4) True,
                      sector (sqrt 2) 2 (5 * pi / 4) (7 * pi / 4) True])),
                 attrColor = color,
                 attrNormal = Some (concat (map snd
                     [sector (sqrt 2) 2 (- (pi / 4)) (pi / 4) True,
                      sector (sqrt 2) 2 (pi / 4) (3 * pi / 4) True,
                      sector (sqrt 2) 2 (3 * pi / 4) (5 * pi / 4) True,
                      sector (sqrt 2) 2 (5 * pi / 4) (7 * pi / 4) True])),
                 drawMode = ''triangles''\<rparr>\<rparr>)"
proof -
  have n: "length [- (pi / 4), pi / 4, 3 * pi / 4, 5 * pi / 4, 7 * pi / 4] - 1 = 4" by simp
  show ?thesis
    unfolding CylindricalVolume_setData_def Let_def n cube_sectors
    by (simp add: Mesh3D_def drawModes_def map2_replicate)
qed

text \<open>
  C7. \<open>Box.setData\<close> with the size \<open>(2, 2, 2)\<close> and one center \<open>(cx, cy, cz)\<close> derives the angles
  \<open>- pi / 4, pi / 4, 3 * pi / 4, 5 * pi / 4, 7 * pi / 4\<close> (with \<open>d = sqrt (sx\<^sup>2 + sy\<^sup>2)\<close>,
  \<open>alpha = 2 * arcsin (sy / d)\<close>, \<open>beta = 2 * arcsin (sx / d)\<close>, the angles
  \<open>0, alpha, alpha + beta, alpha + beta + alpha, 2 * pi\<close> shifted by \<open>- alpha / 2\<close>), and builds
  a vertex buffer whose bounding box is the cube \<open>[-1, 1]\<^sup>3\<close> moved by the center. In the
  model, where coordinates are exact reals, the equality is exact.
\<close>

theorem Box_setData_cube_bounding_box:
  "Box_angles (2, 2, 2) = Inr [- (pi / 4), pi / 4, 3 * pi / 4, 5 * pi / 4, 7 * pi / 4]
   \<and> (\<exists>m. Box_setData self [(cx, cy, cz)] (2, 2, 2) color =
              Inr (self\<lparr>children := [m], meshRef := MeshObj m\<rparr>)
          \<and> length (attrPosition m) = 48
          \<and> bbox (attrPosition m) = ((cx - 1, cy - 1, cz - 1), (cx + 1, cy + 1, cz + 1)))"
proof
  show "Box_angles (2, 2, 2) = Inr [- (pi / 4), pi / 4, 3 * pi / 4, 5 * pi / 4, 7 * pi / 4]"
    by (rule Box_angles_cube)
next
  let ?vs = "map (\<lambda>v. vadd v (cx, cy, cz))
                   (concat (map fst
                     [sector (sqrt 2) 2 (- (pi / 4)) (pi / 4) True,
                      sector (sqrt 2) 2 (pi / 4) (3 * pi / 4) True,
                      sector (sqrt 2) 2 (3 * pi / 4) (5 * pi / 4) True,
                      sector (sqrt 2) 2 (5 * pi / 4) (7 * pi / 4) True]))"
  have eq: "Box_setData self [(cx, cy, cz)] (2, 2, 2) color =
      CylindricalVolume_setData self (Some [(cx, cy, cz)]) (sqrt 2) 2
        [- (pi / 4), pi / 4, 3 * pi / 4, 5 * pi / 4, 7 * pi / 4] color True"
    unfolding Box_setData_def Box_angles_cube by (simp add: sqrt8)
  define vs where "vs = ?vs"
  define m where
    "m = \<lparr>attrPosition = vs, attrColor = color,
           attrNormal = Some (concat (map snd
                     [sector (sqrt 2) 2 (- (pi / 4)) (pi / 4) True,
                      sector (sqrt 2) 2 (pi / 4) (3 * pi / 4) True,
                      sector (sqrt 2) 2 (3 * pi / 4) (5 * pi / 4) True,
                      sector (sqrt 2) 2 (5 * pi / 4) (7 * pi / 4) True])),
           drawMode = ''triangles''\<rparr>"
  have cm: "Box_setData self [(cx, cy, cz)] (2, 2, 2) color =
              Inr (self\<lparr>children := [m], meshRef := MeshObj m\<rparr>)"
    unfolding eq m_def vs_def by (rule cube_mesh)
  have len: "length vs = 48" unfolding vs_def by simp
  have bb: "bbox vs = ((cx - 1, cy - 1, cz - 1), (cx + 1, cy + 1, cz + 1))"
    unfolding vs_def map_map list.map concat.simps append_Nil2 cube_sector_vertices
    by (simp add: bbox_def)
  have ap: "attrPosition m = vs" by (simp add: m_def)
  show "\<exists>m. Box_setData self [(cx, cy, cz)] (2, 2, 2) color =
              Inr (self\<lparr>children := [m], meshRef := MeshObj m\<rparr>)
          \<and> length (attrPosition m) = 48
          \<and> bbox (attrPosition m) = ((cx - 1, cy - 1, cz - 1), (cx + 1, cy + 1, cz + 1))"
    using cm len bb ap by (intro exI[of _ m]) simp
qed

section \<open>Properties of the position readout\<close>

lemma updateField_raises:
  "func x y = Inl e \<Longrightarrow>
     updateField fmt7g styleSheet x y (le, name, func) =
       (le\<lparr>editStyle := styleSheet, editText := ''Error''\<rparr>, name, func)"
  by (simp add: updateField_def Let_def)

lemma updateField_returns:
  "func x y = Inr v \<Longrightarrow>
     updateField fmt7g styleSheet x y (le, name, func) =
       (le\<lparr>editStyle := styleSheet, editText := formatValue fmt7g v\<rparr>, name, func)"
  by (simp add: updateField_def Let_def)

text \<open>
  C9. When a converter raises during the readout of a mouse move, \<open>_plotEvent\<close> returns
  normally: the field of that converter shows the text \<open>Error\<close>, and every other field whose
  converter returns a value shows that value, formatted. (\<open>x'\<close> and \<open>y'\<close> are the position
  handed to the converters, the position of the mouse or of the curve point it snapped to,
  and the premise on \<open>snapPosition\<close> says that the lines before the loop raised nothing.)
\<close>

theorem plotEvent_converter_error_is_local:
  assumes "snapPosition self plt x y xPixel yPixel = Inr (x', y', styleSheet)"
    and "i < length (infoFields self)"
    and "infoFields self ! i = (le, name, func)"
    and "func x' y' = Inl e"
  shows "\<exists>self'. plotEvent fmt7g plt self (MouseMoved x y xPixel yPixel) = Inr self'
       \<and> length (infoFields self') = length (infoFields self)
       \<and> infoFields self' ! i = (le\<lparr>editStyle := styleSheet, editText := ''Error''\<rparr>, name, func)
       \<and> (\<forall>j<length (infoFields self). \<forall>le' name' func' v.
             infoFields self ! j = (le', name', func') \<and> func' x' y' = Inr v \<longrightarrow>
             infoFields self' ! j =
               (le'\<lparr>editStyle := styleSheet, editText := formatValue fmt7g v\<rparr>, name', func'))"
proof -
  let ?self' = "self\<lparr>infoFields := map (updateField fmt7g styleSheet x' y') (infoFields self)\<rparr>"
  have eq: "plotEvent fmt7g plt self (MouseMoved x y xPixel yPixel) = Inr ?self'"
    using assms(1) by (simp add: plotEvent_def)
  have len: "length (infoFields ?self') = length (infoFields self)" by simp
  have err: "infoFields ?self' ! i = (le\<lparr>editStyle := styleSheet, editText := ''Error''\<rparr>, name, func)"
    using assms(2,3,4) by (simp add: updateField_raises)
  have oth: "\<forall>j<length (infoFields self). \<forall>le' name' func' v.
             infoFields self ! j = (le', name', func') \<and> func' x' y' = Inr v \<longrightarrow>
             infoFields ?self' ! j =
               (le'\<lparr>editStyle := styleSheet, editText := formatValue fmt7g v\<rparr>, name', func')"
    by (simp add: updateField_returns)
  show ?thesis using eq len err oth by blast
qed

theorem plotEvent_converter_error_is_local_witness:
  "snapPosition info3 plot0 1 2 10 20 = Inr (1, 2, ''color: rgb(0, 0, 0);'')
   \<and> 1 < length (infoFields info3)
   \<and> snd (snd (infoFields info3 ! 1)) 1 2 = Inl ValueError
   \<and> (\<exists>self'. plotEvent (\<lambda>r. ''#'') plot0 info3 (MouseMoved 1 2 10 20) = Inr self'
       \<and> length (infoFields self') = 3
       \<and> editText (fst (infoFields self' ! 1)) = ''Error''
       \<and> editText (fst (infoFields self' ! 0)) = ''#''
       \<and> editText (fst (infoFields self' ! 2)) = ''p'')"
proof -
  let ?le = "\<lparr>editText = ''------'', editStyle = []\<rparr>"
  let ?f0 = "(\<lambda>x y. Inr (Real x)) :: converter"
  let ?f1 = "(\<lambda>x y. Inl ValueError) :: converter"
  let ?f2 = "(\<lambda>x y. Inr (Other ''p'')) :: converter"
  have a: "snapPosition info3 plot0 1 2 10 20 = Inr (1, 2, ''color: rgb(0, 0, 0);'')"
    by (simp add: snapPosition_def info3_def plot0_def)
  have b: "1 < length (infoFields info3)" by (simp add: info3_def)
  have c: "infoFields info3 ! 1 = (?le, ''Bad'', ?f1)" by (simp add: info3_def)
  have d: "?f1 1 2 = Inl ValueError" by simp
  have c0: "infoFields info3 ! 0 = (?le, ''X'', ?f0) \<and> ?f0 1 2 = Inr (Real 1)"
    by (simp add: info3_def)
  have c2: "infoFields info3 ! 2 = (?le, ''Name'', ?f2) \<and> ?f2 1 2 = Inr (Other ''p'')"
    by (simp add: info3_def)
  have l: "length (infoFields info3) = 3" by (simp add: info3_def)
  from plotEvent_converter_error_is_local[OF a b c d, of "\<lambda>r. ''#''"]
  obtain self' where e: "plotEvent (\<lambda>r. ''#'') plot0 info3 (MouseMoved 1 2 10 20) = Inr self'"
    and len: "length (infoFields self') = length (infoFields info3)"
    and err: "infoFields self' ! 1 =
        (?le\<lparr>editStyle := ''color: rgb(0, 0, 0);'', editText := ''Error''\<rparr>, ''Bad'', ?f1)"
    and oth: "\<forall>j<length (infoFields info3). \<forall>le' name' func' v.
             infoFields info3 ! j = (le', name', func') \<and> func' 1 2 = Inr v \<longrightarrow>
             infoFields self' ! j =
               (le'\<lparr>editStyle := ''color: rgb(0, 0, 0);'',
                    editText := formatValue (\<lambda>r. ''#'') v\<rparr>, name', func')"
    by blast
  have r0: "infoFields self' ! 0 =
      (?le\<lparr>editStyle := ''color: rgb(0, 0, 0);'',
            editText := formatValue (\<lambda>r. ''#'') (Real 1)\<rparr>, ''X'', ?f0)"
    using oth c0 l by simp
  have r2: "infoFields self' ! 2 =
      (?le\<lparr>editStyle := ''color: rgb(0, 0, 0);'',
            editText := formatValue (\<lambda>r. ''#'') (Other ''p'')\<rparr>, ''Name'', ?f2)"
    using oth c2 l by simp
  have "editText (fst (infoFields self' ! 1)) = ''Error''" using err by simp
  moreover have "editText (fst (infoFields self' ! 0)) = ''#''"
    using r0 by (simp add: formatValue_def)
  moreover have "editText (fst (infoFields self' ! 2)) = ''p''"
    using r2 by (simp add: formatValue_def)
  moreover have "snd (snd (infoFields info3 ! 1)) 1 2 = Inl ValueError" using c by simp
  ultimately show ?thesis using a b e len l by auto
qed

end
